theory Spec2Isabelle
  imports Main "HOL-Library.Word"
begin

section \<open>Vertex array data of Panda3D: residency classes, spill file, serialization\<close>

text \<open>
  A shallow embedding of \<^verbatim>\<open>panda/src/gobj/geomVertexArrayData.cxx\<close>. The object, the
  process-wide statics (the three LRUs, the save file, the notify output and the
  modification counter) and the datagram are explicit values; every member function
  takes them and returns them updated. The build modelled is the one with
  \<^verbatim>\<open>HAVE_ZLIB\<close> defined and with assertions compiled in. Sizes and offsets
  (\<^verbatim>\<open>size_t\<close>, and the \<^verbatim>\<open>int\<close> getters of a format, which are never negative)
  are natural numbers; no claim depends on their wrap-around.
\<close>

subsection \<open>Bytes, formats and classes\<close>

type_synonym byte = "8 word"

text \<open>The enum \<^verbatim>\<open>UsageHint\<close> is written to a datagram with \<^verbatim>\<open>add_uint8\<close> and read
  back with a cast from \<^verbatim>\<open>get_uint8\<close>: the model keeps its numeric value.\<close>

type_synonym UsageHint = byte

text \<open>\<^verbatim>\<open>RC_end_of_list\<close> only sizes the table \<^verbatim>\<open>_global_lru\<close>; it is never the class of
  an object, and the arm of \<^verbatim>\<open>evict_lru\<close> for it is an empty \<^verbatim>\<open>break\<close>.\<close>

datatype RamClass = RC_resident | RC_compressed | RC_disk | RC_compressed_disk

text \<open>What \<^verbatim>\<open>reverse_data_endianness\<close> reads of a column and of a format: the getters
  \<^verbatim>\<open>get_start\<close>, \<^verbatim>\<open>get_num_components\<close>, \<^verbatim>\<open>get_component_bytes\<close>, \<^verbatim>\<open>get_stride\<close>,
  \<^verbatim>\<open>get_column\<close> and \<^verbatim>\<open>is_registered\<close>.\<close>

record GeomVertexColumn =
  get_start :: nat
  get_num_components :: nat
  get_component_bytes :: nat

record GeomVertexArrayFormat =
  get_columns :: "GeomVertexColumn list"
  get_stride :: nat
  is_registered :: bool

datatype error = out_of_bounds | loops_forever | null_pointer

subsection \<open>Reversing the endianness of the rows\<close>

text \<open>Modelled from the spec: \<^verbatim>\<open>ReversedNumericData\<close> (reversedNumericData.h is not among
  the sources). The constructor keeps the \<open>len\<close> bytes at \<open>source + ci\<close> in reverse
  order ("each component's bytes are reversed"); \<^verbatim>\<open>store_value\<close> copies them to
  \<open>dest + ci\<close>.\<close>

definition ReversedNumericData :: "byte list \<Rightarrow> nat \<Rightarrow> nat \<Rightarrow> byte list" where
  "ReversedNumericData source ci len = rev (take len (drop ci source))"

definition store_value :: "byte list \<Rightarrow> byte list \<Rightarrow> nat \<Rightarrow> byte list" where
  "store_value nd dest ci = take ci dest @ nd @ drop (ci + length nd) dest"

text \<open>The innermost loop, over the components \<open>cj\<close> of one column. The source advances
  \<open>pi\<close>, the row index of the outer loop, and leaves \<open>ci\<close>, the index it reads and
  writes at, where it is. An access past the end of either array is \<open>out_of_bounds\<close>.\<close>

fun reverse_components ::
  "nat \<Rightarrow> nat \<Rightarrow> nat \<Rightarrow> byte list \<Rightarrow> byte list \<times> nat \<Rightarrow> error + byte list \<times> nat" where
  "reverse_components 0 component_bytes ci source (dest, pi) = Inr (dest, pi)"
| "reverse_components (Suc cj) component_bytes ci source (dest, pi) =
     (if length source < ci + component_bytes \<or> length dest < ci + component_bytes
      then Inl out_of_bounds
      else reverse_components cj component_bytes ci source
             (store_value (ReversedNumericData source ci component_bytes) dest ci,
              pi + component_bytes))"

text \<open>The loop over the columns of one row; \<open>ci\<close> of a column is computed from the
  current \<open>pi\<close>.\<close>

fun reverse_columns ::
  "GeomVertexColumn list \<Rightarrow> byte list \<Rightarrow> byte list \<times> nat \<Rightarrow> error + byte list \<times> nat" where
  "reverse_columns [] source (dest, pi) = Inr (dest, pi)"
| "reverse_columns (col # cols) source (dest, pi) =
     (if 1 < get_component_bytes col then
        (case reverse_components (get_num_components col) (get_component_bytes col)
                (pi + get_start col) source (dest, pi) of
           Inl e \<Rightarrow> Inl e
         | Inr (dest', pi') \<Rightarrow> reverse_columns cols source (dest', pi'))
      else reverse_columns cols source (dest, pi))"

text \<open>The loop over the rows: \<^verbatim>\<open>for (pi = 0; pi < size; pi += stride)\<close>. A pass that
  leaves \<open>pi\<close> where it was (stride 0 and no component visited) repeats for ever.\<close>

function reverse_rows ::
  "GeomVertexArrayFormat \<Rightarrow> byte list \<Rightarrow> nat \<Rightarrow> byte list \<Rightarrow> nat \<Rightarrow> error + byte list" where
  "reverse_rows fmt source sz dest pi =
     (if pi < sz then
        (case reverse_columns (get_columns fmt) source (dest, pi) of
           Inl e \<Rightarrow> Inl e
         | Inr (dest', pi') \<Rightarrow>
             if pi' + get_stride fmt \<le> pi then Inl loops_forever
             else reverse_rows fmt source sz dest' (pi' + get_stride fmt))
      else Inr dest)"
  by pat_completeness auto
termination
  by (relation "measure (\<lambda>(fmt, source, sz, dest, pi). sz - pi)") auto

declare reverse_rows.simps [simp del]

definition reverse_data_endianness ::
  "GeomVertexArrayFormat \<Rightarrow> byte list \<Rightarrow> byte list \<Rightarrow> nat \<Rightarrow> error + byte list" where
  "reverse_data_endianness fmt dest source sz = reverse_rows fmt source sz dest 0"

text \<open>\<^verbatim>\<open>Data new_data(n, get_class_type())\<close>: a vector of \<open>n\<close> zero bytes.\<close>

definition Data :: "nat \<Rightarrow> byte list" where
  "Data n = replicate n 0"

subsection \<open>The LRUs\<close>

text \<open>Modelled from the spec: \<^verbatim>\<open>SimpleLru\<close> and \<^verbatim>\<open>SimpleLruPage\<close> (simpleLru.h is not
  among the sources). A tier is "an ordered list of buffers, a total byte budget and
  per-buffer byte sizes": here the pages with their sizes, the least recently used
  first and the most recently used last. A page knows the tier it is enrolled in, if
  any, and its size. Enrolling withdraws the page from its old tier and appends it to
  the new one; touching re-enrolls it in its own tier; resizing updates its entry.\<close>

datatype lru_id = ram_lru | compressed_lru | disk_lru

record SimpleLru =
  get_max_size :: int
  lru_pages :: "(nat \<times> nat) list"

definition withdraw :: "nat \<Rightarrow> SimpleLru \<Rightarrow> SimpleLru" where
  "withdraw p l = l\<lparr>lru_pages := filter (\<lambda>e. fst e \<noteq> p) (lru_pages l)\<rparr>"

definition enroll :: "nat \<Rightarrow> nat \<Rightarrow> SimpleLru \<Rightarrow> SimpleLru" where
  "enroll p sz l = l\<lparr>lru_pages := lru_pages l @ [(p, sz)]\<rparr>"

definition resize :: "nat \<Rightarrow> nat \<Rightarrow> SimpleLru \<Rightarrow> SimpleLru" where
  "resize p sz l =
     l\<lparr>lru_pages := map (\<lambda>e. if fst e = p then (p, sz) else e) (lru_pages l)\<rparr>"

definition most_recently_used :: "SimpleLru \<Rightarrow> nat option" where
  "most_recently_used l =
     (if lru_pages l = [] then None else Some (fst (last (lru_pages l))))"

subsection \<open>The save file\<close>

text \<open>Modelled from the spec: \<^verbatim>\<open>VertexDataSaveFile\<close> and \<^verbatim>\<open>SimpleAllocatorBlock\<close>
  (vertexDataSaveFile.h and simpleAllocator.h are not among the sources). A block is
  "an offset+length allocation inside the SaveFile"; the file holds the allocated
  blocks in the order of their offsets, each with the bytes written to it. Writing
  places the bytes first-fit and "returns null if the configured max disk size would
  be exceeded", leaving the file as it was; reading copies the block's bytes into the
  destination; deleting a block returns its range to the free space.\<close>

record SimpleAllocatorBlock =
  get_block_start :: nat
  get_size :: nat

record VertexDataSaveFile =
  sf_max_size :: int
  sf_blocks :: "(SimpleAllocatorBlock \<times> byte list) list"

fun first_fit ::
  "nat \<Rightarrow> int \<Rightarrow> (SimpleAllocatorBlock \<times> byte list) list \<Rightarrow> nat \<Rightarrow> nat option" where
  "first_fit sz mx [] free_at = (if int (free_at + sz) \<le> mx then Some free_at else None)"
| "first_fit sz mx ((b, bs) # rest) free_at =
     (if free_at + sz \<le> get_block_start b then Some free_at
      else first_fit sz mx rest (get_block_start b + get_size b))"

fun insert_block ::
  "SimpleAllocatorBlock \<times> byte list \<Rightarrow> (SimpleAllocatorBlock \<times> byte list) list \<Rightarrow>
   (SimpleAllocatorBlock \<times> byte list) list" where
  "insert_block e [] = [e]"
| "insert_block e (x # xs) =
     (if get_block_start (fst e) + get_size (fst e) \<le> get_block_start (fst x)
      then e # x # xs else x # insert_block e xs)"

definition write_data ::
  "VertexDataSaveFile \<Rightarrow> byte list \<Rightarrow> nat \<Rightarrow>
   SimpleAllocatorBlock option \<times> VertexDataSaveFile" where
  "write_data sf bytes sz =
     (case first_fit sz (sf_max_size sf) (sf_blocks sf) 0 of
        None \<Rightarrow> (None, sf)
      | Some off \<Rightarrow>
          (let b = \<lparr>get_block_start = off, get_size = sz\<rparr>
           in (Some b, sf\<lparr>sf_blocks := insert_block (b, take sz bytes) (sf_blocks sf)\<rparr>)))"

text \<open>\<^verbatim>\<open>memcpy(dest, src, n)\<close> on arrays that hold at least \<open>n\<close> bytes each.\<close>

definition memcpy :: "byte list \<Rightarrow> byte list \<Rightarrow> nat \<Rightarrow> byte list" where
  "memcpy dest src n = take n src @ drop n dest"

definition read_data ::
  "VertexDataSaveFile \<Rightarrow> byte list \<Rightarrow> nat \<Rightarrow> SimpleAllocatorBlock \<Rightarrow> bool \<times> byte list" where
  "read_data sf dest sz b =
     (case map_of (sf_blocks sf) b of
        None \<Rightarrow> (False, dest)
      | Some bytes \<Rightarrow>
          if sz \<le> length bytes \<and> sz \<le> length dest then (True, memcpy dest bytes sz)
          else (False, dest))"

definition delete_block :: "SimpleAllocatorBlock \<Rightarrow> VertexDataSaveFile \<Rightarrow> VertexDataSaveFile" where
  "delete_block b sf = sf\<lparr>sf_blocks := filter (\<lambda>e. fst e \<noteq> b) (sf_blocks sf)\<rparr>"

subsection \<open>The codec\<close>

text \<open>zlib is outside the repository: the two calls the source makes are parameters.
  \<open>compress2 z source source_len capacity level\<close> and \<open>uncompress z source source_len
  capacity\<close> give the result code and the bytes \<open>dest[0..dest_len)\<close> of the destination
  after the call, \<open>dest_len\<close> being what the call leaves in its length argument.\<close>

record zlib =
  compress2 :: "byte list \<Rightarrow> nat \<Rightarrow> nat \<Rightarrow> int \<Rightarrow> int \<times> byte list"
  uncompress :: "byte list \<Rightarrow> nat \<Rightarrow> nat \<Rightarrow> int \<times> byte list"

definition Z_OK :: int where
  "Z_OK = 0"

subsection \<open>The object and the statics\<close>

text \<open>What the source sends to the notify categories and to the assertion handler.
  Debug output is not modelled.\<close>

datatype message =
  gobj_error string int
  | gobj_warning string
  | assert_failure string

text \<open>The cycler is modelled by the \<^verbatim>\<open>CData\<close> of the current pipeline stage, the one
  \<^verbatim>\<open>CDWriter cdata(_cycler, true)\<close> opens.\<close>

record CData =
  usage_hint :: UsageHint
  data :: "byte list"
  data_full_size :: nat
  modified :: nat

record GeomVertexArrayData =
  this_page :: nat
  get_lru :: "lru_id option"
  get_lru_size :: nat
  array_format :: "GeomVertexArrayFormat option"
  cycler :: CData
  contexts :: "nat \<rightharpoonup> nat"
  endian_reversed :: bool
  ram_class :: RamClass
  saved_block :: "SimpleAllocatorBlock option"

record Globals =
  lrus :: "lru_id \<Rightarrow> SimpleLru"
  save_file :: "VertexDataSaveFile option"
  max_disk_vertex_data :: int
  min_vertex_data_compress_size :: nat
  vertex_data_compression_level :: int
  notify :: "message list"
  next_modified :: nat

text \<open>The statics as the file initialises them: the RAM and compressed tiers take their
  budgets from the configuration, the disk tier is built with 0, no save file yet.\<close>

definition initial_globals :: "int \<Rightarrow> int \<Rightarrow> int \<Rightarrow> int \<Rightarrow> nat \<Rightarrow> Globals" where
  "initial_globals max_ram_vertex_data max_compressed_vertex_data level max_disk min_size =
     \<lparr>lrus = (\<lambda>l. case l of
                ram_lru \<Rightarrow> \<lparr>get_max_size = max_ram_vertex_data, lru_pages = []\<rparr>
              | compressed_lru \<Rightarrow> \<lparr>get_max_size = max_compressed_vertex_data, lru_pages = []\<rparr>
              | disk_lru \<Rightarrow> \<lparr>get_max_size = 0, lru_pages = []\<rparr>),
      save_file = None,
      max_disk_vertex_data = max_disk,
      min_vertex_data_compress_size = min_size,
      vertex_data_compression_level = level,
      notify = [],
      next_modified = 0\<rparr>"

fun get_global_lru :: "RamClass \<Rightarrow> lru_id" where
  "get_global_lru RC_resident = ram_lru"
| "get_global_lru RC_compressed = compressed_lru"
| "get_global_lru RC_disk = disk_lru"
| "get_global_lru RC_compressed_disk = disk_lru"

definition say :: "message \<Rightarrow> Globals \<Rightarrow> Globals" where
  "say m g = g\<lparr>notify := notify g @ [m]\<rparr>"

text \<open>Modelled from the spec: \<^verbatim>\<open>Geom::get_next_modified\<close> (geom.h is not among the
  sources), the "process-wide monotonic counter".\<close>

definition get_next_modified :: "Globals \<Rightarrow> nat \<times> Globals" where
  "get_next_modified g = (Suc (next_modified g), g\<lparr>next_modified := Suc (next_modified g)\<rparr>)"

text \<open>Modelled from the spec: the page operations \<^verbatim>\<open>mark_used_lru(lru)\<close>,
  \<^verbatim>\<open>mark_used_lru()\<close> and \<^verbatim>\<open>set_lru_size\<close> of \<^verbatim>\<open>SimpleLruPage\<close>, and
  \<^verbatim>\<open>set_ram_class\<close> (geomVertexArrayData.I is not among the sources): "every residency
  change must withdraw from the old tier, enroll in the new tier with current byte
  size, reset the last used to MRU".\<close>

definition mark_used_lru_in ::
  "lru_id \<Rightarrow> GeomVertexArrayData \<Rightarrow> Globals \<Rightarrow> GeomVertexArrayData \<times> Globals" where
  "mark_used_lru_in l this g =
     (let ls = (case get_lru this of
                  None \<Rightarrow> lrus g
                | Some old \<Rightarrow> (lrus g)(old := withdraw (this_page this) (lrus g old)))
      in (this\<lparr>get_lru := Some l\<rparr>,
          g\<lparr>lrus := ls(l := enroll (this_page this) (get_lru_size this) (ls l))\<rparr>))"

definition mark_used_lru ::
  "GeomVertexArrayData \<Rightarrow> Globals \<Rightarrow> GeomVertexArrayData \<times> Globals" where
  "mark_used_lru this g =
     (case get_lru this of None \<Rightarrow> (this, g) | Some l \<Rightarrow> mark_used_lru_in l this g)"

definition set_lru_size ::
  "nat \<Rightarrow> GeomVertexArrayData \<Rightarrow> Globals \<Rightarrow> GeomVertexArrayData \<times> Globals" where
  "set_lru_size sz this g =
     (this\<lparr>get_lru_size := sz\<rparr>,
      (case get_lru this of
         None \<Rightarrow> g
       | Some l \<Rightarrow> g\<lparr>lrus := (lrus g)(l := resize (this_page this) sz (lrus g l))\<rparr>))"

definition set_ram_class ::
  "RamClass \<Rightarrow> GeomVertexArrayData \<Rightarrow> Globals \<Rightarrow> GeomVertexArrayData \<times> Globals" where
  "set_ram_class rclass this g =
     mark_used_lru_in (get_global_lru rclass) (this\<lparr>ram_class := rclass\<rparr>) g"

text \<open>\<^verbatim>\<open>make_save_file\<close>. The cast of the configured \<^verbatim>\<open>int\<close> to \<^verbatim>\<open>size_t\<close> (64 bits)
  wraps, so that -1 is the largest size.\<close>

definition make_save_file :: "Globals \<Rightarrow> Globals" where
  "make_save_file g =
     g\<lparr>save_file :=
         Some \<lparr>sf_max_size = max_disk_vertex_data g mod 2 ^ 64, sf_blocks = []\<rparr>\<rparr>"

text \<open>Modelled from the spec: \<^verbatim>\<open>get_save_file\<close> (geomVertexArrayData.I is not among the
  sources); the one save file is "lazily created", on its first use.\<close>

definition get_save_file :: "Globals \<Rightarrow> VertexDataSaveFile \<times> Globals" where
  "get_save_file g =
     (case save_file g of
        Some sf \<Rightarrow> (sf, g)
      | None \<Rightarrow>
          (\<lparr>sf_max_size = max_disk_vertex_data g mod 2 ^ 64, sf_blocks = []\<rparr>,
           make_save_file g))"

subsection \<open>Constructors\<close>

text \<open>The \<^verbatim>\<open>CData\<close> of a new cycler: no bytes, full size 0. Its usage hint is the last
  value of the enum (geomEnums.h is not among the sources); the public constructor
  and \<^verbatim>\<open>fillin\<close> overwrite it, and nothing below depends on it.\<close>

definition UH_unspecified :: UsageHint where
  "UH_unspecified = 4"

definition CData_default :: CData where
  "CData_default = \<lparr>usage_hint = UH_unspecified, data = [], data_full_size = 0, modified = 0\<rparr>"

text \<open>\<^verbatim>\<open>nassertv(_array_format->is_registered())\<close>, the last statement of both public
  constructors: a failed assertion is reported, and the object stays as built.\<close>

definition assert_registered :: "GeomVertexArrayFormat option \<Rightarrow> Globals \<Rightarrow> Globals" where
  "assert_registered f g =
     (case f of
        Some fmt \<Rightarrow>
          if is_registered fmt then g
          else say (assert_failure ''_array_format->is_registered()'') g
      | None \<Rightarrow> say (assert_failure ''_array_format->is_registered()'') g)"

text \<open>The default constructor, private, used when reading from a bam file: no format
  yet, and the page is in no LRU. \<open>p\<close> is the identity of the new object.\<close>

definition GeomVertexArrayData_default :: "nat \<Rightarrow> GeomVertexArrayData" where
  "GeomVertexArrayData_default p =
     \<lparr>this_page = p, get_lru = None, get_lru_size = 0, array_format = None,
      cycler = CData_default, contexts = Map.empty, endian_reversed = False,
      ram_class = RC_resident, saved_block = None\<rparr>"

definition GeomVertexArrayData_new ::
  "nat \<Rightarrow> GeomVertexArrayFormat \<Rightarrow> UsageHint \<Rightarrow> Globals \<Rightarrow> GeomVertexArrayData \<times> Globals" where
  "GeomVertexArrayData_new p fmt hint g =
     (let this = \<lparr>this_page = p, get_lru = None, get_lru_size = 0, array_format = Some fmt,
                  cycler = CData_default\<lparr>usage_hint := hint\<rparr>, contexts = Map.empty,
                  endian_reversed = False, ram_class = RC_resident, saved_block = None\<rparr>;
          (this1, g1) = mark_used_lru_in (get_global_lru RC_resident) this g
      in (this1, assert_registered (array_format this1) g1))"

text \<open>The copy constructor. The page is copied with its size and enrolled nowhere; the
  format and the cycler are the other object's; the class is the other object's, the
  saved block is \<^verbatim>\<open>NULL\<close>, the table of contexts is empty.\<close>

definition GeomVertexArrayData_copy ::
  "nat \<Rightarrow> GeomVertexArrayData \<Rightarrow> Globals \<Rightarrow> GeomVertexArrayData \<times> Globals" where
  "GeomVertexArrayData_copy p copy g =
     (let this = \<lparr>this_page = p, get_lru = None, get_lru_size = get_lru_size copy,
                  array_format = array_format copy, cycler = cycler copy,
                  contexts = Map.empty, endian_reversed = False,
                  ram_class = ram_class copy, saved_block = None\<rparr>;
          (this1, g1) = mark_used_lru_in (get_global_lru (ram_class this)) this g
      in (this1, assert_registered (array_format this1) g1))"

subsection \<open>The table of contexts\<close>

text \<open>\<open>prepare_vertex_buffer_now\<close> is the collaborator's answer for this object and this
  \<^verbatim>\<open>gsg\<close>: a context, or \<^verbatim>\<open>NULL\<close>.\<close>

definition prepare_now ::
  "(nat \<Rightarrow> nat option) \<Rightarrow> nat \<Rightarrow> GeomVertexArrayData \<Rightarrow> nat option \<times> GeomVertexArrayData" where
  "prepare_now prepare_vertex_buffer_now prepared_objects this =
     (case contexts this prepared_objects of
        Some vbc \<Rightarrow> (Some vbc, this)
      | None \<Rightarrow>
          (case prepare_vertex_buffer_now prepared_objects of
             Some vbc \<Rightarrow>
               (Some vbc, this\<lparr>contexts := (contexts this)(prepared_objects \<mapsto> vbc)\<rparr>)
           | None \<Rightarrow> (None, this)))"

subsection \<open>Moving between the residency classes\<close>

definition restore_from_disk ::
  "GeomVertexArrayData \<Rightarrow> Globals \<Rightarrow> GeomVertexArrayData \<times> Globals" where
  "restore_from_disk this g =
     (if ram_class this = RC_disk \<or> ram_class this = RC_compressed_disk then
        (case saved_block this of
           None \<Rightarrow> (this, say (assert_failure ''_saved_block != (SimpleAllocatorBlock *)NULL'') g)
         | Some blk \<Rightarrow>
             (let sz = get_size blk;
                  (sf, g1) = get_save_file g;
                  (ok, new_data) = read_data sf (Data sz) sz blk;
                  g2 = (if ok then g1 else say (assert_failure ''read error'') g1);
                  this1 = this\<lparr>cycler := (cycler this)\<lparr>data := new_data\<rparr>\<rparr>;
                  g3 = g2\<lparr>save_file := Some (delete_block blk sf)\<rparr>;
                  this2 = this1\<lparr>saved_block := None\<rparr>
              in if ram_class this2 = RC_compressed_disk
                 then set_ram_class RC_compressed this2 g3
                 else set_ram_class RC_resident this2 g3))
      else (this, g))"

text \<open>The tail of \<^verbatim>\<open>make_resident\<close> and of \<^verbatim>\<open>make_compressed\<close>:
  \<^verbatim>\<open>set_lru_size(cdata->_data.size()); set_ram_class(...)\<close>.\<close>

definition resize_and_class ::
  "RamClass \<Rightarrow> GeomVertexArrayData \<Rightarrow> Globals \<Rightarrow> GeomVertexArrayData \<times> Globals" where
  "resize_and_class rclass this g =
     (let (this1, g1) = set_lru_size (length (data (cycler this))) this g
      in set_ram_class rclass this1 g1)"

definition make_resident ::
  "zlib \<Rightarrow> GeomVertexArrayData \<Rightarrow> Globals \<Rightarrow> GeomVertexArrayData \<times> Globals" where
  "make_resident z this0 g0 =
     (if ram_class this0 = RC_resident then mark_used_lru this0 g0
      else
        (let (this, g) =
               (if ram_class this0 = RC_disk \<or> ram_class this0 = RC_compressed_disk
                then restore_from_disk this0 g0 else (this0, g0))
         in if ram_class this = RC_compressed then
              (let cdata = cycler this
               in if min_vertex_data_compress_size g < data_full_size cdata then
                    (let (result, new_data) =
                           uncompress z (data cdata) (length (data cdata)) (data_full_size cdata);
                         g1 = (if result \<noteq> Z_OK
                               then say (assert_failure ''zlib error'')
                                      (say (gobj_error ''Couldn't expand: zlib error'' result) g)
                               else g)
                     in if length new_data \<noteq> data_full_size cdata
                        then (this, say (assert_failure ''dest_len == new_data.size()'') g1)
                        else resize_and_class RC_resident
                               (this\<lparr>cycler := cdata\<lparr>data := new_data\<rparr>\<rparr>) g1)
                  else resize_and_class RC_resident this g)
            else (this, g)))"

definition make_compressed ::
  "zlib \<Rightarrow> GeomVertexArrayData \<Rightarrow> Globals \<Rightarrow> GeomVertexArrayData \<times> Globals" where
  "make_compressed z this0 g0 =
     (if ram_class this0 = RC_compressed then mark_used_lru this0 g0
      else
        (let (this, g) =
               (if ram_class this0 = RC_disk \<or> ram_class this0 = RC_compressed_disk
                then restore_from_disk this0 g0 else (this0, g0))
         in if ram_class this = RC_resident then
              (let cdata = cycler this
               in if min_vertex_data_compress_size g < data_full_size cdata then
                    (let buffer_size =
                           data_full_size cdata + (data_full_size cdata + 999) div 1000 + 12;
                         (result, buffer) =
                           compress2 z (data cdata) (data_full_size cdata) buffer_size
                             (vertex_data_compression_level g);
                         g1 = (if result \<noteq> Z_OK
                               then say (assert_failure ''zlib error'')
                                      (say (gobj_error ''Couldn't compress: zlib error'' result) g)
                               else g);
                         new_data = memcpy (Data (length buffer)) buffer (length buffer)
                     in resize_and_class RC_compressed
                          (this\<lparr>cycler := cdata\<lparr>data := new_data\<rparr>\<rparr>) g1)
                  else resize_and_class RC_compressed this g)
            else (this, g)))"

definition make_disk ::
  "GeomVertexArrayData \<Rightarrow> Globals \<Rightarrow> GeomVertexArrayData \<times> Globals" where
  "make_disk this g =
     (if ram_class this = RC_disk \<or> ram_class this = RC_compressed_disk
      then mark_used_lru this g
      else if ram_class this = RC_resident \<or> ram_class this = RC_compressed then
        (if saved_block this \<noteq> None
         then (this, say (assert_failure ''_saved_block == (SimpleAllocatorBlock *)NULL'') g)
         else
           (let cdata = cycler this;
                (sf, g1) = get_save_file g;
                (blk, sf1) = write_data sf (data cdata) (length (data cdata));
                this1 = this\<lparr>saved_block := blk\<rparr>;
                g2 = g1\<lparr>save_file := Some sf1\<rparr>
            in if saved_block this1 = None then mark_used_lru this1 g2
               else
                 (let this2 = this1\<lparr>cycler := cdata\<lparr>data := Data 0\<rparr>\<rparr>
                  in if ram_class this2 = RC_resident then set_ram_class RC_disk this2 g2
                     else set_ram_class RC_compressed_disk this2 g2)))
      else (this, g))"

definition evict_lru ::
  "zlib \<Rightarrow> GeomVertexArrayData \<Rightarrow> Globals \<Rightarrow> GeomVertexArrayData \<times> Globals" where
  "evict_lru z this g =
     (if get_lru this \<noteq> Some (get_global_lru (ram_class this))
      then (this, say (assert_failure ''get_lru() == get_global_lru(_ram_class)'') g)
      else
        (case ram_class this of
           RC_resident \<Rightarrow>
             if get_max_size (lrus g compressed_lru) = 0 then make_disk this g
             else make_compressed z this g
         | RC_compressed \<Rightarrow> make_disk this g
         | RC_disk \<Rightarrow> (this, say (gobj_warning ''Cannot evict array data from disk.'') g)
         | RC_compressed_disk \<Rightarrow>
             (this, say (gobj_warning ''Cannot evict array data from disk.'') g)))"

subsection \<open>Datagrams\<close>

text \<open>Modelled from the spec: \<^verbatim>\<open>Datagram\<close> and \<^verbatim>\<open>DatagramIterator\<close> (datagram.h is not
  among the sources). A datagram is its bytes; the usage hint takes "1 byte", the byte
  count "4 bytes, unsigned" (the low byte first), the raw bytes follow. Reading past
  the end is \<open>out_of_bounds\<close>.\<close>

type_synonym Datagram = "byte list"

definition add_uint8 :: "byte \<Rightarrow> Datagram \<Rightarrow> Datagram" where
  "add_uint8 b dg = dg @ [b]"

definition add_uint32 :: "nat \<Rightarrow> Datagram \<Rightarrow> Datagram" where
  "add_uint32 n dg =
     dg @ [of_nat (n mod 256), of_nat (n div 256 mod 256),
           of_nat (n div 256 div 256 mod 256), of_nat (n div 256 div 256 div 256 mod 256)]"

definition append_data :: "byte list \<Rightarrow> nat \<Rightarrow> Datagram \<Rightarrow> Datagram" where
  "append_data bytes sz dg = dg @ take sz bytes"

record DatagramIterator =
  get_datagram :: Datagram
  get_current_index :: nat

definition get_uint8 :: "DatagramIterator \<Rightarrow> error + byte \<times> DatagramIterator" where
  "get_uint8 scan =
     (if get_current_index scan < length (get_datagram scan)
      then Inr (get_datagram scan ! get_current_index scan,
                scan\<lparr>get_current_index := get_current_index scan + 1\<rparr>)
      else Inl out_of_bounds)"

definition get_uint32 :: "DatagramIterator \<Rightarrow> error + nat \<times> DatagramIterator" where
  "get_uint32 scan =
     (let i = get_current_index scan; dg = get_datagram scan
      in if i + 4 \<le> length dg
         then Inr (unat (dg ! i) + 256 * (unat (dg ! (i + 1)) + 256 * (unat (dg ! (i + 2))
                     + 256 * unat (dg ! (i + 3)))),
                   scan\<lparr>get_current_index := i + 4\<rparr>)
         else Inl out_of_bounds)"

definition skip_bytes :: "nat \<Rightarrow> DatagramIterator \<Rightarrow> DatagramIterator" where
  "skip_bytes n scan = scan\<lparr>get_current_index := get_current_index scan + n\<rparr>"

subsection \<open>Writing to and reading from a bam stream\<close>

datatype BamEndian = BE_bigendian | BE_littleendian

text \<open>What the source asks of its managers. \<open>get_pta\<close> is the manager's answer inside the
  macro \<^verbatim>\<open>READ_PTA\<close>, which reads the array with \<^verbatim>\<open>read_raw_data\<close> unless the manager
  already holds it (bamReader.h is not among the sources). The native byte order of
  the platform, \<^verbatim>\<open>BE_native\<close>, is a parameter of the functions below.\<close>

record BamManager =
  get_file_endian :: BamEndian

record BamReader = BamManager +
  get_file_minor_ver :: nat
  get_pta :: "DatagramIterator \<Rightarrow> byte list option \<times> DatagramIterator"

definition CData_write_datagram ::
  "BamEndian \<Rightarrow> BamManager \<Rightarrow> GeomVertexArrayData \<Rightarrow> CData \<Rightarrow> Datagram \<Rightarrow> error + Datagram" where
  "CData_write_datagram BE_native manager array_data c dg0 =
     (let dg1 = add_uint8 (usage_hint c) dg0;
          dg = add_uint32 (length (data c)) dg1
      in if get_file_endian manager = BE_native
         then Inr (append_data (data c) (length (data c)) dg)
         else
           (case array_format array_data of
              None \<Rightarrow> Inl null_pointer
            | Some fmt \<Rightarrow>
                (case reverse_data_endianness fmt (Data (length (data c))) (data c)
                        (length (data c)) of
                   Inl e \<Rightarrow> Inl e
                 | Inr new_data \<Rightarrow> Inr (append_data new_data (length new_data) dg))))"

text \<open>\<^verbatim>\<open>write_datagram\<close> of the object: it is made resident first. The pointer to the
  format, which \<^verbatim>\<open>write_pointer\<close> writes as an id that the reader resolves "after full
  read via a pointer table" (bamWriter.h is not among the sources), is handed over
  beside the datagram.\<close>

definition write_datagram ::
  "BamEndian \<Rightarrow> zlib \<Rightarrow> BamManager \<Rightarrow> Datagram \<Rightarrow> GeomVertexArrayData \<Rightarrow> Globals \<Rightarrow>
   (GeomVertexArrayData \<times> Globals) \<times> (error + GeomVertexArrayFormat option \<times> Datagram)" where
  "write_datagram BE_native z manager dg this0 g0 =
     (let (this, g) = make_resident z this0 g0
      in ((this, g),
          (case CData_write_datagram BE_native manager this (cycler this) dg of
             Inl e \<Rightarrow> Inl e
           | Inr dg1 \<Rightarrow> Inr (array_format this, dg1))))"

definition read_raw_data :: "DatagramIterator \<Rightarrow> error + byte list \<times> DatagramIterator" where
  "read_raw_data scan0 =
     (case get_uint32 scan0 of
        Inl e \<Rightarrow> Inl e
      | Inr (sz, scan) \<Rightarrow>
          if length (get_datagram scan) < get_current_index scan + sz then Inl out_of_bounds
          else Inr (memcpy (Data sz) (drop (get_current_index scan) (get_datagram scan)) sz,
                    skip_bytes sz scan))"

definition CData_fillin ::
  "BamEndian \<Rightarrow> BamReader \<Rightarrow> DatagramIterator \<Rightarrow> GeomVertexArrayData \<Rightarrow> Globals \<Rightarrow>
   error + GeomVertexArrayData \<times> DatagramIterator \<times> Globals" where
  "CData_fillin BE_native manager scan0 array_data g =
     (case get_uint8 scan0 of
        Inl e \<Rightarrow> Inl e
      | Inr (hint, scan1) \<Rightarrow>
          (case (if get_file_minor_ver manager < 8 then
                   (case get_pta manager scan1 of
                      (None, scan2) \<Rightarrow> read_raw_data scan2
                    | (Some shared, scan2) \<Rightarrow> Inr (shared, scan2))
                 else
                   (case get_uint32 scan1 of
                      Inl e \<Rightarrow> Inl e
                    | Inr (sz, scan2) \<Rightarrow>
                        if length (get_datagram scan2) < get_current_index scan2 + sz
                        then Inl out_of_bounds
                        else Inr (memcpy (Data sz)
                                    (drop (get_current_index scan2) (get_datagram scan2)) sz,
                                  skip_bytes sz scan2))) of
             Inl e \<Rightarrow> Inl e
           | Inr (bytes, scan) \<Rightarrow>
               (case (if get_file_endian manager \<noteq> BE_native then
                        (case array_format array_data of
                           None \<Rightarrow> Inr (bytes, array_data\<lparr>endian_reversed := True\<rparr>)
                         | Some fmt \<Rightarrow>
                             (case reverse_data_endianness fmt (Data (length bytes)) bytes
                                     (length bytes) of
                                Inl e \<Rightarrow> Inl e
                              | Inr new_data \<Rightarrow> Inr (new_data, array_data)))
                      else Inr (bytes, array_data)) of
                  Inl e \<Rightarrow> Inl e
                | Inr (bytes1, array_data1) \<Rightarrow>
                    (let (array_data2, g1) = set_lru_size (length bytes1) array_data1 g;
                         (stamp, g2) = get_next_modified g1
                     in Inr (array_data2\<lparr>cycler :=
                               \<lparr>usage_hint = hint, data = bytes1,
                                data_full_size = length bytes1, modified = stamp\<rparr>\<rparr>,
                             scan, g2)))))"

text \<open>\<^verbatim>\<open>make_from_bam\<close>: a default object, filled in from the datagram. Its format pointer
  is completed later.\<close>

definition make_from_bam ::
  "BamEndian \<Rightarrow> BamReader \<Rightarrow> nat \<Rightarrow> DatagramIterator \<Rightarrow> Globals \<Rightarrow>
   error + GeomVertexArrayData \<times> DatagramIterator \<times> Globals" where
  "make_from_bam BE_native manager p scan g =
     CData_fillin BE_native manager scan (GeomVertexArrayData_default p) g"

definition complete_pointers ::
  "GeomVertexArrayFormat option \<Rightarrow> GeomVertexArrayData \<Rightarrow> GeomVertexArrayData" where
  "complete_pointers p this = this\<lparr>array_format := p\<rparr>"

text \<open>Modelled from the spec: \<^verbatim>\<open>GeomVertexArrayFormat::register_format\<close>
  (geomVertexArrayFormat.h is not among the sources), "register/intern the array
  format (which may substitute a canonical equivalent)".\<close>

definition register_format :: "GeomVertexArrayFormat \<Rightarrow> GeomVertexArrayFormat" where
  "register_format fmt = fmt\<lparr>is_registered := True\<rparr>"

definition finalize ::
  "GeomVertexArrayData \<Rightarrow> Globals \<Rightarrow> error + GeomVertexArrayData \<times> Globals" where
  "finalize this0 g =
     (case array_format this0 of
        None \<Rightarrow> Inl null_pointer
      | Some fmt \<Rightarrow>
          (let new_array_format = register_format fmt;
               this = this0\<lparr>array_format := Some new_array_format\<rparr>;
               cdata = cycler this
           in if endian_reversed this then
                (case reverse_data_endianness new_array_format (Data (length (data cdata)))
                        (data cdata) (length (data cdata)) of
                   Inl e \<Rightarrow> Inl e
                 | Inr new_data \<Rightarrow>
                     Inr (set_ram_class RC_resident
                            (this\<lparr>cycler := cdata\<lparr>data := new_data\<rparr>\<rparr>) g))
              else Inr (set_ram_class RC_resident this g)))"

text \<open>Writing an object to a stream and reading it back: \<^verbatim>\<open>write_datagram\<close>, then
  \<^verbatim>\<open>make_from_bam\<close>, \<^verbatim>\<open>complete_pointers\<close> and \<^verbatim>\<open>finalize\<close> on a new object \<open>p\<close>, with
  the file endianness and minor version the reader is given.\<close>

definition write_then_read ::
  "BamEndian \<Rightarrow> zlib \<Rightarrow> BamReader \<Rightarrow> nat \<Rightarrow> GeomVertexArrayData \<Rightarrow> Globals \<Rightarrow>
   error + GeomVertexArrayData \<times> Globals" where
  "write_then_read BE_native z reader p this g =
     (case write_datagram BE_native z \<lparr>get_file_endian = get_file_endian reader\<rparr> [] this g of
        (_, Inl e) \<Rightarrow> Inl e
      | ((this1, g1), Inr (ptr, dg)) \<Rightarrow>
          (case make_from_bam BE_native reader p
                  \<lparr>get_datagram = dg, get_current_index = 0\<rparr> g1 of
             Inl e \<Rightarrow> Inl e
           | Inr (object, scan, g2) \<Rightarrow> finalize (complete_pointers ptr object) g2))"

subsection \<open>Writing through a handle\<close>

text \<open>Modelled from the spec: \<^verbatim>\<open>check_resident\<close> of the handle (geomVertexArrayData.I is
  not among the sources), "any mutation must first force Resident".\<close>

definition check_resident ::
  "zlib \<Rightarrow> GeomVertexArrayData \<Rightarrow> Globals \<Rightarrow> GeomVertexArrayData \<times> Globals" where
  "check_resident z this g = make_resident z this g"

text \<open>\<^verbatim>\<open>GeomVertexArrayDataHandle::copy_data_from\<close> at pipeline stage 0, given the bytes of
  the other handle.\<close>

definition copy_data_from ::
  "zlib \<Rightarrow> byte list \<Rightarrow> GeomVertexArrayData \<Rightarrow> Globals \<Rightarrow> GeomVertexArrayData \<times> Globals" where
  "copy_data_from z other_data this0 g0 =
     (let (this, g) = check_resident z this0 g0;
          (stamp, g1) = get_next_modified g;
          this1 = this\<lparr>cycler := (cycler this)\<lparr>data := other_data, modified := stamp,
                                                data_full_size := length other_data\<rparr>\<rparr>;
          (this2, g2) = set_ram_class RC_resident this1 g1
      in set_lru_size (data_full_size (cycler this2)) this2 g2)"

subsection \<open>The residency invariant\<close>

text \<open>On disk: no bytes in memory and a saved block. In memory: no saved block.\<close>

definition residency_invariant :: "GeomVertexArrayData \<Rightarrow> bool" where
  "residency_invariant this =
     (case ram_class this of
        RC_resident \<Rightarrow> saved_block this = None
      | RC_compressed \<Rightarrow> saved_block this = None
      | RC_disk \<Rightarrow> data (cycler this) = [] \<and> saved_block this \<noteq> None
      | RC_compressed_disk \<Rightarrow> data (cycler this) = [] \<and> saved_block this \<noteq> None)"

subsection \<open>Values to run the model on\<close>

text \<open>The format of the spec's endian scenario: one column of two 4-byte components,
  stride 8.\<close>

definition example_format :: GeomVertexArrayFormat where
  "example_format =
     \<lparr>get_columns = [\<lparr>get_start = 0, get_num_components = 2, get_component_bytes = 4\<rparr>],
      get_stride = 8, is_registered = True\<rparr>"

text \<open>A codec that stores: its output is a two-byte header and the input, so it is
  always longer than the input.\<close>

definition stored_zlib :: zlib where
  "stored_zlib =
     \<lparr>compress2 = (\<lambda>source source_len capacity level. (Z_OK, [120, 1] @ take source_len source)),
      uncompress = (\<lambda>source source_len capacity. (Z_OK, drop 2 (take source_len source)))\<rparr>"

text \<open>Object 1, built by the public constructor with the example format in fresh
  statics (RAM budget unlimited, the given budgets for the compressed tier and the
  save file, level 1, minimum size 64), then filled with the given bytes.\<close>

definition example_world :: "int \<Rightarrow> int \<Rightarrow> byte list \<Rightarrow> GeomVertexArrayData \<times> Globals" where
  "example_world max_compressed max_disk bytes =
     (let (this, g) = GeomVertexArrayData_new 1 example_format 3
                        (initial_globals (- 1) max_compressed 1 max_disk 64)
      in copy_data_from stored_zlib bytes this g)"

definition example_bytes :: "byte list" where
  "example_bytes =
     [1, 2, 3, 4, 5, 6, 7, 8, 9, 10, 11, 12, 13, 14, 15, 16, 17, 18, 19, 20, 21, 22, 23, 24]"

text \<open>A reader of the current stream version that holds no shared array.\<close>

definition example_reader :: "BamEndian \<Rightarrow> BamReader" where
  "example_reader e =
     \<lparr>get_file_endian = e, get_file_minor_ver = 8, get_pta = (\<lambda>scan. (None, scan))\<rparr>"

definition example_bytes65 :: "byte list" where
  "example_bytes65 = replicate 65 7"

text \<open>The example object moved to disk, and moved to the compressed class.\<close>

definition example_on_disk :: "GeomVertexArrayData \<times> Globals" where
  "example_on_disk =
     make_disk (fst (example_world (- 1) (- 1) example_bytes))
       (snd (example_world (- 1) (- 1) example_bytes))"

definition example_compressed :: "GeomVertexArrayData \<times> Globals" where
  "example_compressed =
     make_compressed stored_zlib (fst (example_world (- 1) (- 1) example_bytes))
       (snd (example_world (- 1) (- 1) example_bytes))"

text \<open>The example object written to a stream of the platform's endianness and made
  from that stream by \<^verbatim>\<open>make_from_bam\<close>, before its pointers are completed and before
  \<^verbatim>\<open>finalize\<close>: it holds the bytes and is in no LRU yet.\<close>

definition example_from_bam :: "GeomVertexArrayData \<times> Globals" where
  "example_from_bam =
     (case write_datagram BE_littleendian stored_zlib \<lparr>get_file_endian = BE_littleendian\<rparr> []
             (fst (example_world (- 1) (- 1) example_bytes))
             (snd (example_world (- 1) (- 1) example_bytes)) of
        (w, Inl e) \<Rightarrow> (GeomVertexArrayData_default 2, snd w)
      | (w, Inr (ptr, dg)) \<Rightarrow>
          (case make_from_bam BE_littleendian (example_reader BE_littleendian) 2
                  \<lparr>get_datagram = dg, get_current_index = 0\<rparr> (snd w) of
             Inl e \<Rightarrow> (GeomVertexArrayData_default 2, snd w)
           | Inr (object, scan, g) \<Rightarrow> (object, g)))"

section \<open>Properties\<close>

subsection \<open>What the page operations change\<close>

lemma mark_used_lru_fst: "fst (mark_used_lru this g) = this"
  by (simp add: mark_used_lru_def mark_used_lru_in_def Let_def split: option.splits)

lemma mark_used_lru_mru:
  "get_lru this = Some l \<Longrightarrow>
   most_recently_used (lrus (snd (mark_used_lru this g)) l) = Some (this_page this)"
  by (simp add: mark_used_lru_def mark_used_lru_in_def Let_def most_recently_used_def
      enroll_def)

lemma mark_used_lru_notify: "notify (snd (mark_used_lru this g)) = notify g"
  by (simp add: mark_used_lru_def mark_used_lru_in_def Let_def split: option.splits)

lemma get_save_file_notify: "notify (snd (get_save_file g)) = notify g"
  by (simp add: get_save_file_def make_save_file_def split: option.splits)

lemma set_ram_class_fst:
  "fst (set_ram_class rclass this g) =
     this\<lparr>ram_class := rclass, get_lru := Some (get_global_lru rclass)\<rparr>"
  by (simp add: set_ram_class_def mark_used_lru_in_def Let_def)

lemma resize_and_class_fst:
  "fst (resize_and_class rclass this g) =
     this\<lparr>get_lru_size := length (data (cycler this)), ram_class := rclass,
          get_lru := Some (get_global_lru rclass)\<rparr>"
  by (simp add: resize_and_class_def set_lru_size_def set_ram_class_fst case_prod_beta)

text \<open>The configured minimum size and the save file are not touched by the LRUs or by
  the notify output.\<close>

lemma mark_used_lru_in_config:
  "min_vertex_data_compress_size (snd (mark_used_lru_in l this g)) =
     min_vertex_data_compress_size g"
  "save_file (snd (mark_used_lru_in l this g)) = save_file g"
  "notify (snd (mark_used_lru_in l this g)) = notify g"
  by (simp_all add: mark_used_lru_in_def Let_def)

lemma mark_used_lru_config:
  "min_vertex_data_compress_size (snd (mark_used_lru this g)) = min_vertex_data_compress_size g"
  "save_file (snd (mark_used_lru this g)) = save_file g"
  by (simp_all add: mark_used_lru_def mark_used_lru_in_config split: option.splits)

lemma set_ram_class_config:
  "min_vertex_data_compress_size (snd (set_ram_class rc this g)) =
     min_vertex_data_compress_size g"
  "save_file (snd (set_ram_class rc this g)) = save_file g"
  "notify (snd (set_ram_class rc this g)) = notify g"
  by (simp_all add: set_ram_class_def mark_used_lru_in_config)

lemma resize_and_class_config:
  "min_vertex_data_compress_size (snd (resize_and_class rc this g)) =
     min_vertex_data_compress_size g"
  "save_file (snd (resize_and_class rc this g)) = save_file g"
  "notify (snd (resize_and_class rc this g)) = notify g"
  by (simp_all add: resize_and_class_def set_lru_size_def set_ram_class_config
      case_prod_beta split: option.splits)

lemma say_config:
  "min_vertex_data_compress_size (say m g) = min_vertex_data_compress_size g"
  "save_file (say m g) = save_file g"
  by (simp_all add: say_def)

lemma get_save_file_config:
  "min_vertex_data_compress_size (snd (get_save_file g)) = min_vertex_data_compress_size g"
  by (simp add: get_save_file_def make_save_file_def split: option.splits)

lemma get_save_file_made: "save_file (snd (get_save_file g)) = Some (fst (get_save_file g))"
  by (simp add: get_save_file_def make_save_file_def split: option.splits)

lemma get_save_file_Some: "save_file g = Some sf \<Longrightarrow> get_save_file g = (sf, g)"
  by (simp add: get_save_file_def)

lemma Globals_save_file_same: "save_file g = v \<Longrightarrow> g\<lparr>save_file := v\<rparr> = g"
  by (cases g) auto

lemma saved_block_same: "saved_block t = v \<Longrightarrow> t\<lparr>saved_block := v\<rparr> = t"
  by (cases t) auto

subsection \<open>What the save file keeps\<close>

lemma insert_block_member: "e \<in> set (insert_block e xs)"
  by (induction xs) auto

lemma write_data_Some:
  assumes "write_data sf bytes sz = (Some blk, sf1)"
  shows "(blk, take sz bytes) \<in> set (sf_blocks sf1) \<and> get_size blk = sz"
  using assms
  by (auto simp: write_data_def Let_def insert_block_member split: option.splits)

lemma write_data_None:
  "fst (write_data sf bytes sz) = None \<Longrightarrow> snd (write_data sf bytes sz) = sf"
  by (simp add: write_data_def Let_def split: option.splits)

lemma read_data_length: "length (snd (read_data sf (Data n) n blk)) = n"
  by (simp add: read_data_def memcpy_def Data_def split: option.splits)

subsection \<open>The transitions, case by case\<close>

lemma restore_from_disk_config:
  "min_vertex_data_compress_size (snd (restore_from_disk this g)) =
     min_vertex_data_compress_size g"
  by (simp add: restore_from_disk_def set_ram_class_config say_config Let_def case_prod_beta
      get_save_file_config split: option.splits)

lemma make_resident_config:
  "min_vertex_data_compress_size (snd (make_resident z this g)) =
     min_vertex_data_compress_size g"
  by (simp add: make_resident_def mark_used_lru_config restore_from_disk_config
      resize_and_class_config say_config Let_def case_prod_beta)

lemma make_compressed_config:
  "min_vertex_data_compress_size (snd (make_compressed z this g)) =
     min_vertex_data_compress_size g"
  by (simp add: make_compressed_def mark_used_lru_config restore_from_disk_config
      resize_and_class_config say_config Let_def case_prod_beta)

lemma restore_from_disk_class:
  "ram_class t = RC_disk \<or> ram_class t = RC_compressed_disk \<Longrightarrow> saved_block t = Some blk \<Longrightarrow>
   ram_class (fst (restore_from_disk t g)) =
     (if ram_class t = RC_compressed_disk then RC_compressed else RC_resident)"
  by (auto simp: restore_from_disk_def set_ram_class_fst Let_def case_prod_beta)

lemma make_resident_resident:
  "ram_class t = RC_resident \<Longrightarrow> fst (make_resident z t g) = t"
  by (simp add: make_resident_def mark_used_lru_fst)

lemma make_resident_compressed:
  "ram_class t = RC_compressed \<Longrightarrow>
   fst (make_resident z t g) =
     (if min_vertex_data_compress_size g < data_full_size (cycler t) then
        (if length (snd (uncompress z (data (cycler t)) (length (data (cycler t)))
                          (data_full_size (cycler t)))) \<noteq> data_full_size (cycler t)
         then t
         else t\<lparr>cycler := (cycler t)\<lparr>data := snd (uncompress z (data (cycler t))
                                  (length (data (cycler t))) (data_full_size (cycler t)))\<rparr>,
                get_lru_size := data_full_size (cycler t),
                ram_class := RC_resident, get_lru := Some ram_lru\<rparr>)
      else t\<lparr>get_lru_size := length (data (cycler t)), ram_class := RC_resident,
             get_lru := Some ram_lru\<rparr>)"
  by (simp add: make_resident_def resize_and_class_fst Let_def case_prod_beta)

lemma make_resident_twice_in_memory:
  assumes "ram_class t = RC_resident \<or> ram_class t = RC_compressed"
    and "min_vertex_data_compress_size h = min_vertex_data_compress_size g"
  shows "fst (make_resident z (fst (make_resident z t g)) h) = fst (make_resident z t g)"
  using assms
  by (auto simp: make_resident_resident make_resident_compressed)

lemma make_resident_on_disk_none:
  "ram_class t = RC_disk \<or> ram_class t = RC_compressed_disk \<Longrightarrow> saved_block t = None \<Longrightarrow>
   fst (make_resident z t g) = t"
  by (auto simp: make_resident_def restore_from_disk_def Let_def)

lemma make_resident_on_disk_some:
  assumes "ram_class t = RC_disk \<or> ram_class t = RC_compressed_disk"
    and "saved_block t = Some blk"
  shows "fst (make_resident z t g) =
           fst (make_resident z (fst (restore_from_disk t g)) (snd (restore_from_disk t g)))"
proof -
  let ?r = "restore_from_disk t g"
  have c: "ram_class (fst ?r) =
             (if ram_class t = RC_compressed_disk then RC_compressed else RC_resident)"
    using restore_from_disk_class [OF assms] .
  show ?thesis
  proof (cases "ram_class t = RC_compressed_disk")
    case True
    then have "ram_class (fst ?r) = RC_compressed"
      using c by simp
    then show ?thesis
      using True
      by (simp add: make_resident_def [of z t g] make_resident_def [of z "fst ?r" "snd ?r"]
          case_prod_beta Let_def)
  next
    case False
    then have r: "ram_class (fst ?r) = RC_resident"
      using c by simp
    have "fst (make_resident z t g) = fst ?r"
      using assms(1) False r by (simp add: make_resident_def [of z t g] case_prod_beta Let_def)
    then show ?thesis
      using make_resident_resident [OF r] by simp
  qed
qed

lemma make_resident_twice:
  "fst (make_resident z (fst (make_resident z this g)) (snd (make_resident z this g))) =
   fst (make_resident z this g)"
proof (cases "ram_class this = RC_resident \<or> ram_class this = RC_compressed")
  case True
  then show ?thesis
    by (rule make_resident_twice_in_memory) (rule make_resident_config)
next
  case False
  then have d: "ram_class this = RC_disk \<or> ram_class this = RC_compressed_disk"
    by (cases "ram_class this") auto
  show ?thesis
  proof (cases "saved_block this")
    case None
    then show ?thesis
      using d by (simp add: make_resident_on_disk_none)
  next
    case (Some blk)
    let ?r = "restore_from_disk this g"
    have c: "ram_class (fst ?r) = RC_resident \<or> ram_class (fst ?r) = RC_compressed"
      using restore_from_disk_class [OF d Some, of g] by auto
    have m: "min_vertex_data_compress_size (snd (make_resident z this g)) =
             min_vertex_data_compress_size (snd ?r)"
      by (simp add: make_resident_config restore_from_disk_config)
    show ?thesis
      using make_resident_twice_in_memory [OF c m, of z]
      by (simp add: make_resident_on_disk_some [OF d Some])
  qed
qed

lemma make_compressed_compressed:
  "ram_class t = RC_compressed \<Longrightarrow> fst (make_compressed z t g) = t"
  by (simp add: make_compressed_def mark_used_lru_fst)

lemma make_compressed_resident_class:
  "ram_class t = RC_resident \<Longrightarrow> ram_class (fst (make_compressed z t g)) = RC_compressed"
  by (simp add: make_compressed_def resize_and_class_fst Let_def case_prod_beta)

lemma make_compressed_on_disk_none:
  "ram_class t = RC_disk \<or> ram_class t = RC_compressed_disk \<Longrightarrow> saved_block t = None \<Longrightarrow>
   fst (make_compressed z t g) = t"
  by (auto simp: make_compressed_def restore_from_disk_def Let_def)

lemma make_compressed_on_disk_some:
  assumes "ram_class t = RC_disk \<or> ram_class t = RC_compressed_disk"
    and "saved_block t = Some blk"
  shows "ram_class (fst (make_compressed z t g)) = RC_compressed"
proof -
  have c: "ram_class (fst (restore_from_disk t g)) =
             (if ram_class t = RC_compressed_disk then RC_compressed else RC_resident)"
    using restore_from_disk_class [OF assms] .
  show ?thesis
    using assms(1) c
    by (auto simp: make_compressed_def [of z t g] resize_and_class_fst case_prod_beta Let_def)
qed

lemma make_compressed_twice:
  "fst (make_compressed z (fst (make_compressed z this g)) (snd (make_compressed z this g))) =
   fst (make_compressed z this g)"
proof (cases "ram_class this")
  case RC_resident
  then show ?thesis
    by (simp add: make_compressed_compressed make_compressed_resident_class)
next
  case RC_compressed
  then show ?thesis
    by (simp add: make_compressed_compressed)
next
  case RC_disk
  then show ?thesis
    by (cases "saved_block this")
      (simp_all add: make_compressed_on_disk_none make_compressed_on_disk_some
        make_compressed_compressed)
next
  case RC_compressed_disk
  then show ?thesis
    by (cases "saved_block this")
      (simp_all add: make_compressed_on_disk_none make_compressed_on_disk_some
        make_compressed_compressed)
qed

lemma make_disk_on_disk:
  "ram_class t = RC_disk \<or> ram_class t = RC_compressed_disk \<Longrightarrow>
   make_disk t g = mark_used_lru t g"
  by (auto simp: make_disk_def)

lemma make_disk_blocked:
  "ram_class t = RC_resident \<or> ram_class t = RC_compressed \<Longrightarrow> saved_block t \<noteq> None \<Longrightarrow>
   fst (make_disk t g) = t"
  by (auto simp: make_disk_def)

lemma make_disk_refused_eq:
  assumes "ram_class t = RC_resident \<or> ram_class t = RC_compressed"
    and "saved_block t = None"
    and "fst (write_data (fst (get_save_file g)) (data (cycler t))
                (length (data (cycler t)))) = None"
  shows "make_disk t g = mark_used_lru t (snd (get_save_file g))"
proof -
  let ?sf = "fst (get_save_file g)"
  let ?g1 = "snd (get_save_file g)"
  have s: "snd (write_data ?sf (data (cycler t)) (length (data (cycler t)))) = ?sf"
    using assms(3) by (rule write_data_None)
  have g: "?g1\<lparr>save_file := Some ?sf\<rparr> = ?g1"
    by (rule Globals_save_file_same) (rule get_save_file_made)
  show ?thesis
    using assms
    by (auto simp: make_disk_def case_prod_beta Let_def s g saved_block_same)
qed

lemma make_disk_accepted_class:
  assumes "ram_class t = RC_resident \<or> ram_class t = RC_compressed"
    and "saved_block t = None"
    and "fst (write_data (fst (get_save_file g)) (data (cycler t))
                (length (data (cycler t)))) \<noteq> None"
  shows "ram_class (fst (make_disk t g)) =
           (if ram_class t = RC_resident then RC_disk else RC_compressed_disk)"
  using assms
  by (auto simp: make_disk_def case_prod_beta Let_def set_ram_class_fst)

lemma make_disk_second_call:
  assumes "ram_class this = RC_resident \<or> ram_class this = RC_compressed \<longrightarrow>
           saved_block this = None"
  shows "make_disk (fst (make_disk this g)) (snd (make_disk this g)) =
         mark_used_lru (fst (make_disk this g)) (snd (make_disk this g))"
proof (cases "ram_class this = RC_disk \<or> ram_class this = RC_compressed_disk")
  case True
  then show ?thesis
    by (simp add: make_disk_on_disk mark_used_lru_fst)
next
  case False
  then have m: "ram_class this = RC_resident \<or> ram_class this = RC_compressed"
    by (cases "ram_class this") auto
  then have b: "saved_block this = None"
    using assms by simp
  let ?w = "fst (write_data (fst (get_save_file g)) (data (cycler this))
                   (length (data (cycler this))))"
  show ?thesis
  proof (cases "?w = None")
    case True
    let ?g1 = "snd (get_save_file g)"
    let ?h = "snd (mark_used_lru this ?g1)"
    have e: "make_disk this g = mark_used_lru this ?g1"
      using m b True by (rule make_disk_refused_eq)
    have sfh: "save_file ?h = Some (fst (get_save_file g))"
      by (simp add: mark_used_lru_config get_save_file_made)
    have gh: "get_save_file ?h = (fst (get_save_file g), ?h)"
      using sfh by (rule get_save_file_Some)
    have "make_disk this ?h = mark_used_lru this (snd (get_save_file ?h))"
      using m b True by (intro make_disk_refused_eq) (simp_all add: gh)
    then show ?thesis
      by (simp add: e mark_used_lru_fst gh)
  next
    case False
    have "ram_class (fst (make_disk this g)) = RC_disk \<or>
          ram_class (fst (make_disk this g)) = RC_compressed_disk"
      using make_disk_accepted_class [OF m b False] by auto
    then show ?thesis
      by (rule make_disk_on_disk)
  qed
qed

lemma make_disk_twice:
  "fst (make_disk (fst (make_disk this g)) (snd (make_disk this g))) = fst (make_disk this g)"
proof (cases "(ram_class this = RC_resident \<or> ram_class this = RC_compressed) \<and>
              saved_block this \<noteq> None")
  case True
  then show ?thesis
    by (simp add: make_disk_blocked)
next
  case False
  then have "ram_class this = RC_resident \<or> ram_class this = RC_compressed \<longrightarrow>
             saved_block this = None"
    by auto
  then show ?thesis
    by (simp add: make_disk_second_call mark_used_lru_fst)
qed

subsection \<open>The table of contexts\<close>

text \<open>C10: for a device that is not in the table of contexts, a null context from the
  collaborator makes \<open>prepare_now\<close> return null and leaves the object, its table
  included, as it was; a context that is not null is returned and recorded for that
  device, and nothing else changes.\<close>

theorem prepare_now_null_context:
  assumes "contexts this prepared_objects = None"
  shows "(prepare_vertex_buffer_now prepared_objects = None \<longrightarrow>
            prepare_now prepare_vertex_buffer_now prepared_objects this = (None, this)) \<and>
         (\<forall>vbc. prepare_vertex_buffer_now prepared_objects = Some vbc \<longrightarrow>
            prepare_now prepare_vertex_buffer_now prepared_objects this =
              (Some vbc, this\<lparr>contexts := (contexts this)(prepared_objects \<mapsto> vbc)\<rparr>))"
  using assms by (simp add: prepare_now_def)

theorem prepare_now_null_context_witness:
  "prepare_now (\<lambda>d. None) 7 (fst (example_world (- 1) 0 example_bytes)) =
     (None, fst (example_world (- 1) 0 example_bytes)) \<and>
   prepare_now (\<lambda>d. Some 5) 7 (fst (example_world (- 1) 0 example_bytes)) =
     (Some 5, (fst (example_world (- 1) 0 example_bytes))
                \<lparr>contexts := (contexts (fst (example_world (- 1) 0 example_bytes)))(7 \<mapsto> 5)\<rparr>)"
proof -
  have h: "contexts (fst (example_world (- 1) 0 example_bytes)) 7 = None"
    by code_simp
  show ?thesis
    using prepare_now_null_context [OF h, of "\<lambda>d. None"]
      prepare_now_null_context [OF h, of "\<lambda>d. Some 5"]
    by simp
qed

subsection \<open>A refused write\<close>

text \<open>C3: for an object in class Resident or Compressed, with no saved block, whose
  write the save file refuses, \<open>make_disk\<close> leaves the object as it was (its class, its
  bytes and its absent saved block included), reports nothing, and leaves the page the
  most recently used one of the tier it is enrolled in.\<close>

theorem make_disk_refused:
  assumes "ram_class this = RC_resident \<or> ram_class this = RC_compressed"
    and "saved_block this = None"
    and "fst (write_data (fst (get_save_file g)) (data (cycler this))
                (length (data (cycler this)))) = None"
  shows "fst (make_disk this g) = this \<and>
         notify (snd (make_disk this g)) = notify g \<and>
         (\<forall>l. get_lru this = Some l \<longrightarrow>
            most_recently_used (lrus (snd (make_disk this g)) l) = Some (this_page this))"
proof -
  obtain sf g1 where sf: "get_save_file g = (sf, g1)"
    by (cases "get_save_file g")
  obtain sf1 where
    w: "write_data sf (data (cycler this)) (length (data (cycler this))) = (None, sf1)"
    using assms(3) sf
    by (cases "write_data sf (data (cycler this)) (length (data (cycler this)))") auto
  have same: "this\<lparr>saved_block := None\<rparr> = this"
    using assms(2) by (cases this) simp
  have md: "make_disk this g = mark_used_lru this (g1\<lparr>save_file := Some sf1\<rparr>)"
    using assms(1,2) sf w by (auto simp: make_disk_def same)
  have n: "notify g1 = notify g"
    using get_save_file_notify [of g] sf by simp
  show ?thesis
    by (simp add: md mark_used_lru_fst mark_used_lru_mru mark_used_lru_notify n)
qed

theorem make_disk_refused_witness:
  "fst (make_disk (fst (example_world (- 1) 0 example_bytes))
          (snd (example_world (- 1) 0 example_bytes))) =
     fst (example_world (- 1) 0 example_bytes) \<and>
   ram_class (fst (example_world (- 1) 0 example_bytes)) = RC_resident \<and>
   most_recently_used
     (lrus (snd (make_disk (fst (example_world (- 1) 0 example_bytes))
                   (snd (example_world (- 1) 0 example_bytes)))) ram_lru) = Some 1"
proof -
  let ?b = "fst (example_world (- 1) 0 example_bytes)"
  let ?g = "snd (example_world (- 1) 0 example_bytes)"
  have h1: "ram_class ?b = RC_resident \<or> ram_class ?b = RC_compressed"
    by code_simp
  have h2: "saved_block ?b = None"
    by code_simp
  have h3: "fst (write_data (fst (get_save_file ?g)) (data (cycler ?b))
                   (length (data (cycler ?b)))) = None"
    by code_simp
  have h4: "get_lru ?b = Some ram_lru"
    by code_simp
  have h5: "this_page ?b = 1"
    by code_simp
  have h6: "ram_class ?b = RC_resident"
    by code_simp
  show ?thesis
    using make_disk_refused [OF h1 h2 h3] h4 h5 h6 by simp
qed

subsection \<open>An accepted write\<close>

text \<open>C5: for an object in class Resident or Compressed with no saved block, whose
  write the save file accepts, \<open>make_disk\<close> hands the current bytes, in their full
  length, to the save file and keeps the file that results, which holds the returned
  block with those bytes; the object records the returned block, its byte vector is
  empty, its class is Disk if it was Resident and CompressedDisk if it was
  Compressed, it is enrolled in the disk tier, and nothing else of it changes.\<close>

theorem make_disk_stores:
  assumes "ram_class this = RC_resident \<or> ram_class this = RC_compressed"
    and "saved_block this = None"
    and "write_data (fst (get_save_file g)) (data (cycler this))
           (length (data (cycler this))) = (Some blk, sf1)"
  shows "fst (make_disk this g) =
           this\<lparr>saved_block := Some blk, cycler := (cycler this)\<lparr>data := []\<rparr>,
                ram_class := (if ram_class this = RC_resident then RC_disk
                              else RC_compressed_disk),
                get_lru := Some disk_lru\<rparr> \<and>
         save_file (snd (make_disk this g)) = Some sf1 \<and>
         (blk, data (cycler this)) \<in> set (sf_blocks sf1) \<and>
         get_size blk = length (data (cycler this))"
proof -
  obtain sf g1 where sf: "get_save_file g = (sf, g1)"
    by (cases "get_save_file g")
  have w: "write_data sf (data (cycler this)) (length (data (cycler this))) = (Some blk, sf1)"
    using assms(3) sf by simp
  have stored: "(blk, data (cycler this)) \<in> set (sf_blocks sf1) \<and>
                get_size blk = length (data (cycler this))"
    using write_data_Some [OF w] by simp
  have obj: "fst (make_disk this g) =
           this\<lparr>saved_block := Some blk, cycler := (cycler this)\<lparr>data := []\<rparr>,
                ram_class := (if ram_class this = RC_resident then RC_disk
                              else RC_compressed_disk),
                get_lru := Some disk_lru\<rparr>"
    using assms(1,2) sf w
    by (auto simp: make_disk_def set_ram_class_fst Data_def)
  have kept: "save_file (snd (make_disk this g)) = Some sf1"
    using assms(1,2) sf w
    by (auto simp: make_disk_def set_ram_class_config Data_def)
  show ?thesis
    using obj kept stored by simp
qed

theorem make_disk_stores_witness:
  "ram_class (fst (example_world (- 1) (- 1) example_bytes)) = RC_resident \<and>
   ram_class (fst example_on_disk) = RC_disk \<and>
   data (cycler (fst example_on_disk)) = [] \<and>
   saved_block (fst example_on_disk) = Some \<lparr>get_block_start = 0, get_size = 24\<rparr> \<and>
   save_file (snd example_on_disk) =
     Some \<lparr>sf_max_size = 18446744073709551615,
           sf_blocks = [(\<lparr>get_block_start = 0, get_size = 24\<rparr>, example_bytes)]\<rparr>"
proof -
  let ?b = "fst (example_world (- 1) (- 1) example_bytes)"
  let ?g = "snd (example_world (- 1) (- 1) example_bytes)"
  have h1: "ram_class ?b = RC_resident \<or> ram_class ?b = RC_compressed"
    by code_simp
  have h2: "saved_block ?b = None"
    by code_simp
  have h3: "write_data (fst (get_save_file ?g)) (data (cycler ?b)) (length (data (cycler ?b))) =
              (Some \<lparr>get_block_start = 0, get_size = 24\<rparr>,
               \<lparr>sf_max_size = 18446744073709551615,
                sf_blocks = [(\<lparr>get_block_start = 0, get_size = 24\<rparr>, example_bytes)]\<rparr>)"
    by code_simp
  have h4: "ram_class ?b = RC_resident"
    by code_simp
  show ?thesis
    using make_disk_stores [OF h1 h2 h3] h4 by (simp add: example_on_disk_def)
qed

subsection \<open>Back from disk\<close>

text \<open>C6: for an object in class Disk or CompressedDisk, \<open>restore_from_disk\<close> asserts
  that there is a saved block (without one it reports the failed assertion and
  changes nothing else); with one, a new vector of the block's size, filled by the
  read from the save file, becomes the bytes of the object, so that their length is
  the block's size, the block is deleted from the save file and the object has none,
  and the class is Compressed if it was CompressedDisk and Resident if it was Disk.
  For an object in any other class it does nothing.\<close>

theorem restore_from_disk_reads:
  "(ram_class this = RC_disk \<or> ram_class this = RC_compressed_disk \<longrightarrow>
      (case saved_block this of
         None \<Rightarrow>
           restore_from_disk this g =
             (this, say (assert_failure ''_saved_block != (SimpleAllocatorBlock *)NULL'') g)
       | Some blk \<Rightarrow>
           fst (restore_from_disk this g) =
             this\<lparr>cycler := (cycler this)
                     \<lparr>data := snd (read_data (fst (get_save_file g)) (Data (get_size blk))
                                     (get_size blk) blk)\<rparr>,
                  saved_block := None,
                  ram_class := (if ram_class this = RC_compressed_disk then RC_compressed
                                else RC_resident),
                  get_lru := Some (if ram_class this = RC_compressed_disk then compressed_lru
                                   else ram_lru)\<rparr> \<and>
           length (data (cycler (fst (restore_from_disk this g)))) = get_size blk \<and>
           save_file (snd (restore_from_disk this g)) =
             Some (delete_block blk (fst (get_save_file g))))) \<and>
   (ram_class this \<noteq> RC_disk \<and> ram_class this \<noteq> RC_compressed_disk \<longrightarrow>
      restore_from_disk this g = (this, g))"
  by (auto simp: restore_from_disk_def set_ram_class_fst set_ram_class_config
      read_data_length Let_def case_prod_beta split: option.splits)

theorem restore_from_disk_reads_witness:
  "ram_class (fst example_on_disk) = RC_disk \<and>
   ram_class (fst (restore_from_disk (fst example_on_disk) (snd example_on_disk))) =
     RC_resident \<and>
   data (cycler (fst (restore_from_disk (fst example_on_disk) (snd example_on_disk)))) =
     example_bytes \<and>
   saved_block (fst (restore_from_disk (fst example_on_disk) (snd example_on_disk))) = None \<and>
   save_file (snd (restore_from_disk (fst example_on_disk) (snd example_on_disk))) =
     Some \<lparr>sf_max_size = 18446744073709551615, sf_blocks = []\<rparr> \<and>
   restore_from_disk (fst example_compressed) (snd example_compressed) = example_compressed \<and>
   restore_from_disk (fst (GeomVertexArrayData_copy 2 (fst example_on_disk) (snd example_on_disk)))
       (snd example_on_disk) =
     (fst (GeomVertexArrayData_copy 2 (fst example_on_disk) (snd example_on_disk)),
      say (assert_failure ''_saved_block != (SimpleAllocatorBlock *)NULL'')
        (snd example_on_disk))"
proof -
  let ?d = "fst example_on_disk"
  let ?g = "snd example_on_disk"
  let ?c = "fst (GeomVertexArrayData_copy 2 (fst example_on_disk) (snd example_on_disk))"
  have h6: "ram_class ?c = RC_disk"
    by code_simp
  have h7: "saved_block ?c = None"
    by code_simp
  have h1: "ram_class ?d = RC_disk"
    by code_simp
  have h2: "saved_block ?d = Some \<lparr>get_block_start = 0, get_size = 24\<rparr>"
    by code_simp
  have h3: "snd (read_data (fst (get_save_file ?g)) (Data 24) 24
                   \<lparr>get_block_start = 0, get_size = 24\<rparr>) = example_bytes"
    by code_simp
  have h4: "delete_block \<lparr>get_block_start = 0, get_size = 24\<rparr> (fst (get_save_file ?g)) =
              \<lparr>sf_max_size = 18446744073709551615, sf_blocks = []\<rparr>"
    by code_simp
  have h5: "ram_class (fst example_compressed) = RC_compressed"
    by code_simp
  show ?thesis
    using restore_from_disk_reads [of ?d ?g]
      restore_from_disk_reads [of "fst example_compressed" "snd example_compressed"]
      restore_from_disk_reads [of ?c ?g]
      h1 h2 h3 h4 h5 h6 h7
    by simp
qed

subsection \<open>Eviction\<close>

text \<open>C7, as the source has it: called for an object enrolled in the tier of its
  class, \<open>evict_lru\<close> does, for a Resident object, what \<open>make_compressed\<close> does when the
  budget of the compressed tier is not zero, which leaves the object Compressed, and
  what \<open>make_disk\<close> does when that budget is zero; for a Compressed object it does
  what \<open>make_disk\<close> does. Where \<open>make_disk\<close> is called on an object with no saved
  block, the object ends in class Disk, or CompressedDisk if it was Compressed, when
  the save file accepts the write, and is left as it was when the save file refuses
  it. For an object in class Disk or CompressedDisk \<open>evict_lru\<close> emits the warning and
  leaves the object, so its class, bytes and saved block, as it was.\<close>

theorem evict_lru_by_class:
  assumes "get_lru this = Some (get_global_lru (ram_class this))"
  shows "(ram_class this = RC_resident \<and> get_max_size (lrus g compressed_lru) \<noteq> 0 \<longrightarrow>
            evict_lru z this g = make_compressed z this g \<and>
            ram_class (fst (evict_lru z this g)) = RC_compressed) \<and>
         (ram_class this = RC_resident \<and> get_max_size (lrus g compressed_lru) = 0 \<longrightarrow>
            evict_lru z this g = make_disk this g) \<and>
         (ram_class this = RC_compressed \<longrightarrow> evict_lru z this g = make_disk this g) \<and>
         ((ram_class this = RC_resident \<and> get_max_size (lrus g compressed_lru) = 0 \<or>
           ram_class this = RC_compressed) \<and>
          saved_block this = None \<and>
          fst (write_data (fst (get_save_file g)) (data (cycler this))
                 (length (data (cycler this)))) \<noteq> None \<longrightarrow>
            ram_class (fst (evict_lru z this g)) =
              (if ram_class this = RC_resident then RC_disk else RC_compressed_disk)) \<and>
         ((ram_class this = RC_resident \<and> get_max_size (lrus g compressed_lru) = 0 \<or>
           ram_class this = RC_compressed) \<and>
          saved_block this = None \<and>
          fst (write_data (fst (get_save_file g)) (data (cycler this))
                 (length (data (cycler this)))) = None \<longrightarrow>
            fst (evict_lru z this g) = this) \<and>
         (ram_class this = RC_disk \<or> ram_class this = RC_compressed_disk \<longrightarrow>
            evict_lru z this g =
              (this, say (gobj_warning ''Cannot evict array data from disk.'') g))"
proof -
  have dispatch:
    "evict_lru z this g =
       (case ram_class this of
          RC_resident \<Rightarrow>
            if get_max_size (lrus g compressed_lru) = 0 then make_disk this g
            else make_compressed z this g
        | RC_compressed \<Rightarrow> make_disk this g
        | RC_disk \<Rightarrow> (this, say (gobj_warning ''Cannot evict array data from disk.'') g)
        | RC_compressed_disk \<Rightarrow>
            (this, say (gobj_warning ''Cannot evict array data from disk.'') g))"
    using assms by (simp add: evict_lru_def)
  have refused: "fst (make_disk this g) = this"
    if "ram_class this = RC_resident \<or> ram_class this = RC_compressed"
      and "saved_block this = None"
      and "fst (write_data (fst (get_save_file g)) (data (cycler this))
                  (length (data (cycler this)))) = None"
    using make_disk_refused_eq [OF that] by (simp add: mark_used_lru_fst)
  show ?thesis
    by (auto simp: dispatch make_compressed_resident_class make_disk_accepted_class refused)
qed

theorem evict_lru_by_class_witness:
  "ram_class (fst (evict_lru stored_zlib (fst (example_world (- 1) (- 1) example_bytes))
                     (snd (example_world (- 1) (- 1) example_bytes)))) = RC_compressed \<and>
   ram_class (fst (evict_lru stored_zlib (fst (example_world 0 (- 1) example_bytes))
                     (snd (example_world 0 (- 1) example_bytes)))) = RC_disk \<and>
   ram_class (fst (evict_lru stored_zlib (fst example_compressed) (snd example_compressed))) =
     RC_compressed_disk \<and>
   fst (evict_lru stored_zlib (fst (example_world 0 0 example_bytes))
          (snd (example_world 0 0 example_bytes))) = fst (example_world 0 0 example_bytes) \<and>
   evict_lru stored_zlib (fst example_on_disk) (snd example_on_disk) =
     (fst example_on_disk,
      say (gobj_warning ''Cannot evict array data from disk.'') (snd example_on_disk))"
proof -
  let ?b = "fst (example_world (- 1) (- 1) example_bytes)"
  let ?g = "snd (example_world (- 1) (- 1) example_bytes)"
  let ?bz = "fst (example_world 0 (- 1) example_bytes)"
  let ?gz = "snd (example_world 0 (- 1) example_bytes)"
  let ?bf = "fst (example_world 0 0 example_bytes)"
  let ?gf = "snd (example_world 0 0 example_bytes)"
  let ?c = "fst example_compressed"
  let ?gc = "snd example_compressed"
  let ?d = "fst example_on_disk"
  let ?gd = "snd example_on_disk"
  have b1: "get_lru ?b = Some (get_global_lru (ram_class ?b))"
    by code_simp
  have b2: "ram_class ?b = RC_resident"
    by code_simp
  have b3: "get_max_size (lrus ?g compressed_lru) \<noteq> 0"
    by code_simp
  have z1: "get_lru ?bz = Some (get_global_lru (ram_class ?bz))"
    by code_simp
  have z2: "ram_class ?bz = RC_resident"
    by code_simp
  have z3: "get_max_size (lrus ?gz compressed_lru) = 0"
    by code_simp
  have z4: "saved_block ?bz = None"
    by code_simp
  have z5: "fst (write_data (fst (get_save_file ?gz)) (data (cycler ?bz))
                   (length (data (cycler ?bz)))) \<noteq> None"
    by code_simp
  have f1: "get_lru ?bf = Some (get_global_lru (ram_class ?bf))"
    by code_simp
  have f2: "ram_class ?bf = RC_resident"
    by code_simp
  have f3: "get_max_size (lrus ?gf compressed_lru) = 0"
    by code_simp
  have f4: "saved_block ?bf = None"
    by code_simp
  have f5: "fst (write_data (fst (get_save_file ?gf)) (data (cycler ?bf))
                   (length (data (cycler ?bf)))) = None"
    by code_simp
  have c1: "get_lru ?c = Some (get_global_lru (ram_class ?c))"
    by code_simp
  have c2: "ram_class ?c = RC_compressed"
    by code_simp
  have c3: "saved_block ?c = None"
    by code_simp
  have c4: "fst (write_data (fst (get_save_file ?gc)) (data (cycler ?c))
                   (length (data (cycler ?c)))) \<noteq> None"
    by code_simp
  have d1: "get_lru ?d = Some (get_global_lru (ram_class ?d))"
    by code_simp
  have d2: "ram_class ?d = RC_disk"
    by code_simp
  have r1: "ram_class (fst (evict_lru stored_zlib ?b ?g)) = RC_compressed"
    using evict_lru_by_class [OF b1, of ?g stored_zlib] b2 b3 by blast
  have "ram_class (fst (evict_lru stored_zlib ?bz ?gz)) =
          (if ram_class ?bz = RC_resident then RC_disk else RC_compressed_disk)"
    using evict_lru_by_class [OF z1, of ?gz stored_zlib] z2 z3 z4 z5 by blast
  then have r2: "ram_class (fst (evict_lru stored_zlib ?bz ?gz)) = RC_disk"
    using z2 by simp
  have "ram_class (fst (evict_lru stored_zlib ?c ?gc)) =
          (if ram_class ?c = RC_resident then RC_disk else RC_compressed_disk)"
    using evict_lru_by_class [OF c1, of ?gc stored_zlib] c2 c3 c4 by blast
  then have r3: "ram_class (fst (evict_lru stored_zlib ?c ?gc)) = RC_compressed_disk"
    using c2 by simp
  have r4: "fst (evict_lru stored_zlib ?bf ?gf) = ?bf"
    using evict_lru_by_class [OF f1, of ?gf stored_zlib] f2 f3 f4 f5 by blast
  have r5: "evict_lru stored_zlib ?d ?gd =
              (?d, say (gobj_warning ''Cannot evict array data from disk.'') ?gd)"
    using evict_lru_by_class [OF d1, of ?gd stored_zlib] d2 by blast
  show ?thesis
    using r1 r2 r3 r4 r5 by blast
qed

text \<open>Without those conditions the hook does not demote. The Resident example object,
  enrolled in the RAM tier, with a compressed budget of zero and a save file that
  holds nothing, is still Resident after \<open>evict_lru\<close>: the write is refused. The object
  made from a bam stream and not yet finalized is Resident with its bytes and in no
  tier; with a compressed budget that is not zero it is still Resident after
  \<open>evict_lru\<close>: the assertion on its tier fails.\<close>

theorem evict_lru_stays_resident_counterexample:
  "ram_class (fst (example_world 0 0 example_bytes)) = RC_resident \<and>
   get_lru (fst (example_world 0 0 example_bytes)) = Some ram_lru \<and>
   get_max_size (lrus (snd (example_world 0 0 example_bytes)) compressed_lru) = 0 \<and>
   ram_class (fst (evict_lru stored_zlib (fst (example_world 0 0 example_bytes))
                     (snd (example_world 0 0 example_bytes)))) = RC_resident \<and>
   ram_class (fst example_from_bam) = RC_resident \<and>
   data (cycler (fst example_from_bam)) = example_bytes \<and>
   get_lru (fst example_from_bam) = None \<and>
   get_max_size (lrus (snd example_from_bam) compressed_lru) \<noteq> 0 \<and>
   ram_class (fst (evict_lru stored_zlib (fst example_from_bam) (snd example_from_bam))) =
     RC_resident"
proof -
  let ?bf = "fst (example_world 0 0 example_bytes)"
  let ?gf = "snd (example_world 0 0 example_bytes)"
  have h1: "ram_class ?bf = RC_resident"
    by code_simp
  have h2: "get_lru ?bf = Some ram_lru"
    by code_simp
  have h3: "get_max_size (lrus ?gf compressed_lru) = 0"
    by code_simp
  have h4: "ram_class (fst (evict_lru stored_zlib ?bf ?gf)) = RC_resident"
    by code_simp
  have h5: "ram_class (fst example_from_bam) = RC_resident"
    by code_simp
  have h6: "data (cycler (fst example_from_bam)) = example_bytes"
    by code_simp
  have h7: "get_lru (fst example_from_bam) = None"
    by code_simp
  have h8: "get_max_size (lrus (snd example_from_bam) compressed_lru) \<noteq> 0"
    by code_simp
  have h9: "ram_class (fst (evict_lru stored_zlib (fst example_from_bam)
                              (snd example_from_bam))) = RC_resident"
    by code_simp
  show ?thesis
    using h1 h2 h3 h4 h5 h6 h7 h8 h9 by blast
qed

subsection \<open>Calling a transition twice\<close>

text \<open>C8: for every object, the object after two calls of \<open>make_resident\<close> in a row is
  the object after one call, so the class and the bytes are the same; likewise for
  \<open>make_compressed\<close> and for \<open>make_disk\<close>. For an object that satisfies the residency
  invariant, the second call of \<open>make_disk\<close> does exactly what marking the page as
  used does.\<close>

theorem residency_idempotent:
  "fst (make_resident z (fst (make_resident z this g)) (snd (make_resident z this g))) =
     fst (make_resident z this g) \<and>
   fst (make_compressed z (fst (make_compressed z this g)) (snd (make_compressed z this g))) =
     fst (make_compressed z this g) \<and>
   fst (make_disk (fst (make_disk this g)) (snd (make_disk this g))) =
     fst (make_disk this g) \<and>
   (residency_invariant this \<longrightarrow>
      make_disk (fst (make_disk this g)) (snd (make_disk this g)) =
        mark_used_lru (fst (make_disk this g)) (snd (make_disk this g)))"
proof -
  have "make_disk (fst (make_disk this g)) (snd (make_disk this g)) =
        mark_used_lru (fst (make_disk this g)) (snd (make_disk this g))"
    if "residency_invariant this"
  proof (rule make_disk_second_call)
    show "ram_class this = RC_resident \<or> ram_class this = RC_compressed \<longrightarrow>
          saved_block this = None"
      using that by (auto simp: residency_invariant_def)
  qed
  then show ?thesis
    by (simp add: make_resident_twice make_compressed_twice make_disk_twice)
qed

theorem residency_idempotent_witness:
  "residency_invariant (fst (example_world (- 1) (- 1) example_bytes)) \<and>
   make_disk (fst example_on_disk) (snd example_on_disk) =
     mark_used_lru (fst example_on_disk) (snd example_on_disk) \<and>
   ram_class (fst (make_disk (fst example_on_disk) (snd example_on_disk))) = RC_disk \<and>
   data (cycler (fst (make_disk (fst example_on_disk) (snd example_on_disk)))) = []"
proof -
  let ?b = "fst (example_world (- 1) (- 1) example_bytes)"
  let ?g = "snd (example_world (- 1) (- 1) example_bytes)"
  have h: "residency_invariant ?b"
    by code_simp
  have c1: "ram_class (fst example_on_disk) = RC_disk"
    by code_simp
  have c2: "data (cycler (fst example_on_disk)) = []"
    by code_simp
  have m: "fst (make_disk (fst example_on_disk) (snd example_on_disk)) = fst example_on_disk"
    using residency_idempotent [of stored_zlib ?b ?g] by (simp add: example_on_disk_def)
  show ?thesis
    using residency_idempotent [of stored_zlib ?b ?g] h c1 c2 m
    by (simp add: example_on_disk_def)
qed

subsection \<open>Small buffers\<close>

lemma make_compressed_tiny:
  assumes "ram_class this = RC_resident"
    and "data_full_size (cycler this) \<le> min_vertex_data_compress_size g"
  shows "make_compressed z this g = resize_and_class RC_compressed this g"
  using assms by (simp add: make_compressed_def Let_def)

lemma make_resident_tiny:
  assumes "ram_class this = RC_compressed"
    and "data_full_size (cycler this) \<le> min_vertex_data_compress_size g"
  shows "make_resident z this g = resize_and_class RC_resident this g"
  using assms by (simp add: make_resident_def Let_def)

text \<open>C9: for a Resident object whose \<open>data_full_size\<close> is at most the configured minimum
  size, \<open>make_compressed\<close> leaves the bytes, and so their length, as they were and
  sets the class to Compressed; \<open>make_resident\<close> after it leaves the bytes as they
  were too and sets the class to Resident. Neither call depends on the codec: any two
  codecs give the same result.\<close>

theorem tiny_buffer_skips_codec:
  assumes "ram_class this = RC_resident"
    and "data_full_size (cycler this) \<le> min_vertex_data_compress_size g"
  shows "data (cycler (fst (make_compressed z this g))) = data (cycler this) \<and>
         length (data (cycler (fst (make_compressed z this g)))) = length (data (cycler this)) \<and>
         ram_class (fst (make_compressed z this g)) = RC_compressed \<and>
         data (cycler (fst (make_resident z (fst (make_compressed z this g))
                             (snd (make_compressed z this g))))) = data (cycler this) \<and>
         ram_class (fst (make_resident z (fst (make_compressed z this g))
                           (snd (make_compressed z this g)))) = RC_resident \<and>
         make_compressed z this g = make_compressed z' this g \<and>
         make_resident z (fst (make_compressed z this g)) (snd (make_compressed z this g)) =
           make_resident z' (fst (make_compressed z this g)) (snd (make_compressed z this g))"
proof -
  let ?c = "resize_and_class RC_compressed this g"
  have mc: "make_compressed y this g = ?c" for y
    using assms by (rule make_compressed_tiny)
  have c1: "ram_class (fst ?c) = RC_compressed"
    by (simp add: resize_and_class_fst)
  have c2: "data_full_size (cycler (fst ?c)) \<le> min_vertex_data_compress_size (snd ?c)"
    using assms(2) by (simp add: resize_and_class_fst resize_and_class_config)
  have mr: "make_resident y (fst ?c) (snd ?c) = resize_and_class RC_resident (fst ?c) (snd ?c)"
    for y
    using c1 c2 by (rule make_resident_tiny)
  show ?thesis
    unfolding mc mr by (simp add: resize_and_class_fst)
qed

theorem tiny_buffer_skips_codec_witness:
  "data (cycler (fst (example_world (- 1) (- 1) example_bytes))) = example_bytes \<and>
   data (cycler (fst example_compressed)) = example_bytes \<and>
   ram_class (fst example_compressed) = RC_compressed \<and>
   data (cycler (fst (make_resident stored_zlib (fst example_compressed)
                       (snd example_compressed)))) = example_bytes \<and>
   ram_class (fst (make_resident stored_zlib (fst example_compressed)
                     (snd example_compressed))) = RC_resident"
proof -
  let ?b = "fst (example_world (- 1) (- 1) example_bytes)"
  let ?g = "snd (example_world (- 1) (- 1) example_bytes)"
  have h1: "ram_class ?b = RC_resident"
    by code_simp
  have h2: "data_full_size (cycler ?b) \<le> min_vertex_data_compress_size ?g"
    by code_simp
  have h3: "data (cycler ?b) = example_bytes"
    by code_simp
  show ?thesis
    using tiny_buffer_skips_codec [OF h1 h2, of stored_zlib stored_zlib] h3
    by (simp add: example_compressed_def)
qed

subsection \<open>What the codec returns is what is kept\<close>

lemma memcpy_all: "memcpy (Data (length buffer)) buffer (length buffer) = buffer"
  by (simp add: memcpy_def Data_def)

text \<open>C2, as the source has it: for a Resident object whose \<open>data_full_size\<close> is above
  the configured minimum size, \<open>make_compressed\<close> calls the codec on the bytes with
  that size, a buffer of that size plus a thousandth, rounded up, plus twelve, and
  the configured level; when the codec returns \<open>Z_OK\<close>, the bytes of the object after
  the call are the bytes the codec left in the buffer, whatever their length, the
  class is Compressed and nothing is reported.\<close>

theorem make_compressed_keeps_codec_output:
  assumes "ram_class this = RC_resident"
    and "min_vertex_data_compress_size g < data_full_size (cycler this)"
    and "fst (compress2 z (data (cycler this)) (data_full_size (cycler this))
                (data_full_size (cycler this) + (data_full_size (cycler this) + 999) div 1000
                   + 12)
                (vertex_data_compression_level g)) = Z_OK"
  shows "data (cycler (fst (make_compressed z this g))) =
           snd (compress2 z (data (cycler this)) (data_full_size (cycler this))
                  (data_full_size (cycler this) + (data_full_size (cycler this) + 999) div 1000
                     + 12)
                  (vertex_data_compression_level g)) \<and>
         ram_class (fst (make_compressed z this g)) = RC_compressed \<and>
         notify (snd (make_compressed z this g)) = notify g"
  using assms
  by (simp add: make_compressed_def resize_and_class_fst resize_and_class_config memcpy_all
      Let_def case_prod_beta)

theorem make_compressed_keeps_codec_output_witness:
  "data (cycler (fst (make_compressed stored_zlib
                        (fst (example_world (- 1) (- 1) example_bytes65))
                        (snd (example_world (- 1) (- 1) example_bytes65))))) =
     120 # 1 # example_bytes65 \<and>
   ram_class (fst (make_compressed stored_zlib
                     (fst (example_world (- 1) (- 1) example_bytes65))
                     (snd (example_world (- 1) (- 1) example_bytes65)))) = RC_compressed"
proof -
  let ?b = "fst (example_world (- 1) (- 1) example_bytes65)"
  let ?g = "snd (example_world (- 1) (- 1) example_bytes65)"
  have h1: "ram_class ?b = RC_resident"
    by code_simp
  have h2: "min_vertex_data_compress_size ?g < data_full_size (cycler ?b)"
    by code_simp
  have h3: "fst (compress2 stored_zlib (data (cycler ?b)) (data_full_size (cycler ?b))
                  (data_full_size (cycler ?b) + (data_full_size (cycler ?b) + 999) div 1000 + 12)
                  (vertex_data_compression_level ?g)) = Z_OK"
    by code_simp
  have h4: "snd (compress2 stored_zlib (data (cycler ?b)) (data_full_size (cycler ?b))
                  (data_full_size (cycler ?b) + (data_full_size (cycler ?b) + 999) div 1000 + 12)
                  (vertex_data_compression_level ?g)) = 120 # 1 # example_bytes65"
    by code_simp
  show ?thesis
    using make_compressed_keeps_codec_output [OF h1 h2 h3] h4
    by simp
qed

text \<open>The claim as the spec words it fails: the storing codec returns \<open>Z_OK\<close> and an
  output longer than its input, and the 65 bytes of the example are not the bytes of
  the object after \<open>make_compressed\<close>.\<close>

theorem make_compressed_larger_output_counterexample:
  "ram_class (fst (example_world (- 1) (- 1) example_bytes65)) = RC_resident \<and>
   min_vertex_data_compress_size (snd (example_world (- 1) (- 1) example_bytes65)) <
     data_full_size (cycler (fst (example_world (- 1) (- 1) example_bytes65))) \<and>
   fst (compress2 stored_zlib
          (data (cycler (fst (example_world (- 1) (- 1) example_bytes65)))) 65 78 1) = Z_OK \<and>
   length (data (cycler (fst (example_world (- 1) (- 1) example_bytes65)))) <
     length (snd (compress2 stored_zlib
                    (data (cycler (fst (example_world (- 1) (- 1) example_bytes65)))) 65 78 1)) \<and>
   data (cycler (fst (make_compressed stored_zlib
                        (fst (example_world (- 1) (- 1) example_bytes65))
                        (snd (example_world (- 1) (- 1) example_bytes65))))) \<noteq>
     data (cycler (fst (example_world (- 1) (- 1) example_bytes65)))"
proof -
  let ?b = "fst (example_world (- 1) (- 1) example_bytes65)"
  let ?g = "snd (example_world (- 1) (- 1) example_bytes65)"
  have h1: "ram_class ?b = RC_resident"
    by code_simp
  have h2: "min_vertex_data_compress_size ?g < data_full_size (cycler ?b)"
    by code_simp
  have h3: "length (data (cycler ?b)) <
              length (snd (compress2 stored_zlib (data (cycler ?b)) 65 78 1))"
    by code_simp
  have h4: "data (cycler (fst (make_compressed stored_zlib ?b ?g))) \<noteq> data (cycler ?b)"
    by code_simp
  have h5: "fst (compress2 stored_zlib (data (cycler ?b)) 65 78 1) = Z_OK"
    by code_simp
  show ?thesis
    using h1 h2 h3 h4 h5 by blast
qed

subsection \<open>The residency invariant\<close>

lemma inv_new: "residency_invariant (fst (GeomVertexArrayData_new p fmt hint g))"
  by (simp add: residency_invariant_def GeomVertexArrayData_new_def mark_used_lru_in_def
      Let_def)

lemma inv_copy_in_memory:
  "residency_invariant copy \<Longrightarrow> ram_class copy = RC_resident \<or> ram_class copy = RC_compressed \<Longrightarrow>
   residency_invariant (fst (GeomVertexArrayData_copy p copy g))"
  by (auto simp: residency_invariant_def GeomVertexArrayData_copy_def mark_used_lru_in_def
      Let_def)

lemma inv_restore_from_disk:
  "residency_invariant this \<Longrightarrow> residency_invariant (fst (restore_from_disk this g))"
  by (auto simp: residency_invariant_def restore_from_disk_def set_ram_class_fst Let_def
      case_prod_beta split: RamClass.splits option.splits)

lemma inv_make_disk:
  "residency_invariant this \<Longrightarrow> residency_invariant (fst (make_disk this g))"
  by (auto simp: residency_invariant_def make_disk_def set_ram_class_fst mark_used_lru_fst
      Data_def Let_def case_prod_beta split: RamClass.splits option.splits)

lemma inv_in_memory:
  "ram_class t = RC_resident \<or> ram_class t = RC_compressed \<Longrightarrow>
   residency_invariant t = (saved_block t = None)"
  by (auto simp: residency_invariant_def)

lemma inv_on_disk:
  "ram_class t = RC_disk \<or> ram_class t = RC_compressed_disk \<Longrightarrow>
   residency_invariant t = (data (cycler t) = [] \<and> saved_block t \<noteq> None)"
  by (auto simp: residency_invariant_def)

lemma inv_make_resident_in_memory:
  assumes "ram_class t = RC_resident \<or> ram_class t = RC_compressed"
    and "residency_invariant t"
  shows "residency_invariant (fst (make_resident z t g))"
  using assms
  by (auto simp: make_resident_resident make_resident_compressed inv_in_memory)

lemma inv_make_resident:
  assumes "residency_invariant this"
  shows "residency_invariant (fst (make_resident z this g))"
proof (cases "ram_class this = RC_resident \<or> ram_class this = RC_compressed")
  case True
  then show ?thesis
    using assms by (rule inv_make_resident_in_memory)
next
  case False
  then have d: "ram_class this = RC_disk \<or> ram_class this = RC_compressed_disk"
    by (cases "ram_class this") auto
  then obtain blk where b: "saved_block this = Some blk"
    using assms by (auto simp: inv_on_disk)
  let ?r = "restore_from_disk this g"
  have c: "ram_class (fst ?r) = RC_resident \<or> ram_class (fst ?r) = RC_compressed"
    using restore_from_disk_class [OF d b, of g] by auto
  have "residency_invariant (fst (make_resident z (fst ?r) (snd ?r)))"
    using c inv_restore_from_disk [OF assms] by (rule inv_make_resident_in_memory)
  then show ?thesis
    by (simp add: make_resident_on_disk_some [OF d b])
qed

lemma make_compressed_in_memory_block:
  "ram_class t = RC_resident \<or> ram_class t = RC_compressed \<Longrightarrow>
   saved_block (fst (make_compressed z t g)) = saved_block t \<and>
   ram_class (fst (make_compressed z t g)) = RC_compressed"
  by (auto simp: make_compressed_def mark_used_lru_fst resize_and_class_fst Let_def
      case_prod_beta)

lemma make_compressed_on_disk_eq:
  assumes "ram_class t = RC_disk \<or> ram_class t = RC_compressed_disk"
    and "saved_block t = Some blk"
  shows "fst (make_compressed z t g) =
           fst (make_compressed z (fst (restore_from_disk t g)) (snd (restore_from_disk t g)))"
proof -
  let ?r = "restore_from_disk t g"
  have c: "ram_class (fst ?r) =
             (if ram_class t = RC_compressed_disk then RC_compressed else RC_resident)"
    using restore_from_disk_class [OF assms] .
  show ?thesis
  proof (cases "ram_class t = RC_compressed_disk")
    case True
    then have r: "ram_class (fst ?r) = RC_compressed"
      using c by simp
    have "fst (make_compressed z t g) = fst ?r"
      using assms(1) True r by (simp add: make_compressed_def [of z t g] case_prod_beta Let_def)
    then show ?thesis
      using make_compressed_compressed [OF r] by simp
  next
    case False
    then have "ram_class (fst ?r) = RC_resident"
      using c by simp
    then show ?thesis
      using assms(1) False
      by (simp add: make_compressed_def [of z t g] make_compressed_def [of z "fst ?r" "snd ?r"]
          case_prod_beta Let_def)
  qed
qed

lemma inv_make_compressed:
  assumes "residency_invariant this"
  shows "residency_invariant (fst (make_compressed z this g))"
proof (cases "ram_class this = RC_resident \<or> ram_class this = RC_compressed")
  case True
  then show ?thesis
    using assms make_compressed_in_memory_block [OF True, of z g]
    by (simp add: inv_in_memory)
next
  case False
  then have d: "ram_class this = RC_disk \<or> ram_class this = RC_compressed_disk"
    by (cases "ram_class this") auto
  then obtain blk where b: "saved_block this = Some blk"
    using assms by (auto simp: inv_on_disk)
  let ?r = "restore_from_disk this g"
  have c: "ram_class (fst ?r) = RC_resident \<or> ram_class (fst ?r) = RC_compressed"
    using restore_from_disk_class [OF d b, of g] by auto
  have i: "saved_block (fst ?r) = None"
    using inv_restore_from_disk [OF assms, of g] c by (simp add: inv_in_memory)
  show ?thesis
    using make_compressed_in_memory_block [OF c, of z "snd ?r"] i
    by (simp add: make_compressed_on_disk_eq [OF d b] inv_in_memory)
qed

lemma inv_evict_lru:
  "residency_invariant this \<Longrightarrow> residency_invariant (fst (evict_lru z this g))"
  by (auto simp: evict_lru_def inv_make_disk inv_make_compressed split: RamClass.splits)

text \<open>The invariant is kept by the public constructor, by the copy constructor on an
  object held in memory, and by every transition and the eviction hook.\<close>

theorem residency_invariant_kept:
  "residency_invariant (fst (GeomVertexArrayData_new p fmt hint g)) \<and>
   (residency_invariant this \<longrightarrow>
      (ram_class this = RC_resident \<or> ram_class this = RC_compressed \<longrightarrow>
         residency_invariant (fst (GeomVertexArrayData_copy p this g))) \<and>
      residency_invariant (fst (make_resident z this g)) \<and>
      residency_invariant (fst (make_compressed z this g)) \<and>
      residency_invariant (fst (make_disk this g)) \<and>
      residency_invariant (fst (restore_from_disk this g)) \<and>
      residency_invariant (fst (evict_lru z this g)))"
  by (simp add: inv_new inv_copy_in_memory inv_make_resident inv_make_compressed inv_make_disk
      inv_restore_from_disk inv_evict_lru)

theorem residency_invariant_kept_witness:
  "residency_invariant (fst example_on_disk) \<and>
   residency_invariant (fst (make_resident stored_zlib (fst example_on_disk)
                               (snd example_on_disk))) \<and>
   residency_invariant (fst (make_compressed stored_zlib (fst example_on_disk)
                               (snd example_on_disk))) \<and>
   residency_invariant (fst (evict_lru stored_zlib (fst example_on_disk)
                               (snd example_on_disk)))"
proof -
  have h: "residency_invariant (fst example_on_disk)"
    by code_simp
  show ?thesis
    using residency_invariant_kept [of 1 example_format 3 "snd example_on_disk"
        "fst example_on_disk" stored_zlib] h
    by blast
qed

text \<open>C4: the copy constructor does not keep the invariant. The example object on disk
  satisfies it; its copy has the class Disk, no bytes and no saved block, so it does
  not; and \<open>make_resident\<close> on the copy fails the assertion of \<open>restore_from_disk\<close> and
  leaves it in class Disk without bytes.\<close>

theorem copy_of_disk_object_breaks_invariant:
  "residency_invariant (fst example_on_disk) \<and>
   ram_class (fst (GeomVertexArrayData_copy 2 (fst example_on_disk) (snd example_on_disk))) =
     RC_disk \<and>
   saved_block (fst (GeomVertexArrayData_copy 2 (fst example_on_disk) (snd example_on_disk))) =
     None \<and>
   \<not> residency_invariant
        (fst (GeomVertexArrayData_copy 2 (fst example_on_disk) (snd example_on_disk))) \<and>
   ram_class (fst (make_resident stored_zlib
                     (fst (GeomVertexArrayData_copy 2 (fst example_on_disk) (snd example_on_disk)))
                     (snd (GeomVertexArrayData_copy 2 (fst example_on_disk)
                             (snd example_on_disk))))) = RC_disk \<and>
   data (cycler (fst (make_resident stored_zlib
                        (fst (GeomVertexArrayData_copy 2 (fst example_on_disk)
                                (snd example_on_disk)))
                        (snd (GeomVertexArrayData_copy 2 (fst example_on_disk)
                                (snd example_on_disk)))))) = []"
proof -
  let ?c = "GeomVertexArrayData_copy 2 (fst example_on_disk) (snd example_on_disk)"
  have h1: "residency_invariant (fst example_on_disk)"
    by code_simp
  have h2: "ram_class (fst ?c) = RC_disk"
    by code_simp
  have h3: "saved_block (fst ?c) = None"
    by code_simp
  have h4: "\<not> residency_invariant (fst ?c)"
    by code_simp
  have h5: "ram_class (fst (make_resident stored_zlib (fst ?c) (snd ?c))) = RC_disk"
    by code_simp
  have h6: "data (cycler (fst (make_resident stored_zlib (fst ?c) (snd ?c)))) = []"
    by code_simp
  show ?thesis
    using h1 h2 h3 h4 h5 h6 by blast
qed

subsection \<open>Through a stream and back\<close>

text \<open>C1: the round trip does not hold for a stream of the other endianness. The
  example object has the format of one column of two 4-byte components, stride 8, and
  the 24 bytes 1 to 24. Written to a stream of the platform's endianness and read
  back, its bytes are the same. The conversion of its bytes reverses the first
  component of the first and of the third row and leaves zeros everywhere else; so,
  written to a stream of the other endianness and read back, only the bytes of those
  two components are the original ones, and the rest is zero.\<close>

theorem write_then_read_other_endian:
  "(case write_then_read BE_littleendian stored_zlib (example_reader BE_littleendian) 2
            (fst (example_world (- 1) (- 1) example_bytes))
            (snd (example_world (- 1) (- 1) example_bytes)) of
       Inl e \<Rightarrow> False
     | Inr (object, g) \<Rightarrow> data (cycler object) = example_bytes) \<and>
   reverse_data_endianness example_format (Data 24) example_bytes 24 =
     Inr [4, 3, 2, 1, 0, 0, 0, 0, 0, 0, 0, 0, 0, 0, 0, 0, 20, 19, 18, 17, 0, 0, 0, 0] \<and>
   (case write_then_read BE_littleendian stored_zlib (example_reader BE_bigendian) 2
            (fst (example_world (- 1) (- 1) example_bytes))
            (snd (example_world (- 1) (- 1) example_bytes)) of
       Inl e \<Rightarrow> False
     | Inr (object, g) \<Rightarrow>
         data (cycler object) =
           [1, 2, 3, 4, 0, 0, 0, 0, 0, 0, 0, 0, 0, 0, 0, 0, 17, 18, 19, 20, 0, 0, 0, 0])"
proof -
  let ?b = "fst (example_world (- 1) (- 1) example_bytes)"
  let ?g = "snd (example_world (- 1) (- 1) example_bytes)"
  have h1: "(case write_then_read BE_littleendian stored_zlib (example_reader BE_littleendian)
                    2 ?b ?g of
               Inl e \<Rightarrow> False
             | Inr (object, g) \<Rightarrow> data (cycler object) = example_bytes)"
    by code_simp
  have h2: "reverse_data_endianness example_format (Data 24) example_bytes 24 =
              Inr [4, 3, 2, 1, 0, 0, 0, 0, 0, 0, 0, 0, 0, 0, 0, 0, 20, 19, 18, 17, 0, 0, 0, 0]"
    by code_simp
  have h3: "(case write_then_read BE_littleendian stored_zlib (example_reader BE_bigendian)
                    2 ?b ?g of
               Inl e \<Rightarrow> False
             | Inr (object, g) \<Rightarrow>
                 data (cycler object) =
                   [1, 2, 3, 4, 0, 0, 0, 0, 0, 0, 0, 0, 0, 0, 0, 0, 17, 18, 19, 20, 0, 0, 0, 0])"
    by code_simp
  show ?thesis
    using h1 h2 h3 by blast
qed

end
